theory Spec2Isabelle
  imports Complex_Main
begin

section \<open>The training script \<^verbatim>\<open>src/train.py\<close> as a trace-producing program\<close>

text \<open>
  \<^verbatim>\<open>train.py\<close> is a single procedure over external collaborators: the dataset,
  model, logger and checkpoint modules of the repository and the tensor framework.
  None of them is part of the source file, so the embedding keeps them outside too:
  \<^item> every call the script makes to a collaborator is an \<open>event\<close>, recorded in the
    order of the calls, with the arguments the claims speak about;
  \<^item> what a collaborator answers (whether the call raises, which batches a loader
    yields, what the model predicted) is read from an environment \<open>env\<close>;
  \<^item> whether a call raises may depend on everything that happened before it, so the
    environment decides from the history of events and the call at hand.

  A raise is a value: every run yields the events it performed and either an
  exception or a result. Subscripts of the configuration, \<^verbatim>\<open>os.path.join\<close>, \<^verbatim>\<open>range\<close>,
  \<^verbatim>\<open>min\<close> and the divisions raise as Python's do.

  What is not modelled. Python floats are the real numbers they denote: rounding,
  infinities and NaN are left out, and so is the formatting of numbers into log lines
  (a log event carries the numbers). The calls of the iteration protocol on a loader
  and the reads of tensors already computed (\<^verbatim>\<open>.item()\<close>, \<^verbatim>\<open>.size(0)\<close>, \<^verbatim>\<open>.max(1)\<close>) are
  answers of the environment, not events, so they do not raise.
\<close>

subsection \<open>Values, exceptions, events\<close>

datatype pyval = PyStr string | PyInt int | PyFloat real

text \<open>
  \<open>Raised\<close> is an exception raised inside a collaborator that is an instance of
  \<^verbatim>\<open>Exception\<close>; \<open>Interrupt\<close> one that is not (\<^verbatim>\<open>KeyboardInterrupt\<close>,
  \<^verbatim>\<open>SystemExit\<close>), which \<^verbatim>\<open>except Exception\<close> lets through.
\<close>

datatype py_exc =
    ZeroDivisionError
  | KeyError string
  | TypeError
  | Raised string
  | Interrupt string

fun is_Exception :: "py_exc \<Rightarrow> bool" where
  "is_Exception (Interrupt _) = False"
| "is_Exception _ = True"

text \<open>The lines written through \<^verbatim>\<open>logger.log\<close>, with the values formatted into them.\<close>

datatype log_msg =
    UsingGPU string
  | GPUMemory real
  | CudaNotAvailable
  | ErrorCreatingDatasets py_exc
  | NumberOfClasses nat
  | TrainingSamples nat
  | ValidationSamples nat
  | StartingTraining
  | CurrentLearningRate real
  | EpochHeader nat pyval
  | TrainMetrics real real
  | ValMetrics real real
  | NewBestModel real

text \<open>
  The calls. \<open>EmotionDatasetInit d sub m\<close> is
  \<^verbatim>\<open>EmotionDataset(data_dir=os.path.join(d, sub), mode=m)\<close>;
  \<open>GetDataloader ds shuffle batch_size num_workers pin_memory\<close> is \<^verbatim>\<open>get_dataloader\<close> on
  the training or the validation dataset; \<open>AutocastEnter\<close> and \<open>CudaAmpAutocastEnter\<close>
  enter \<^verbatim>\<open>torch.amp.autocast(device_type, dtype)\<close> and \<^verbatim>\<open>torch.cuda.amp.autocast()\<close>;
  \<open>ScalerScale\<close>, \<open>Backward\<close> are \<^verbatim>\<open>scaler.scale(loss).backward()\<close> and \<open>ScalerStep\<close>
  is \<^verbatim>\<open>scaler.step(optimizer)\<close>; \<open>SaveCheckpoint epoch val_loss val_acc dir\<close> is
  \<^verbatim>\<open>save_checkpoint\<close> with its arguments other than the model and the optimizer;
  \<open>Makedirs dir exist_ok\<close> is \<^verbatim>\<open>os.makedirs\<close>.
\<close>

datatype dataset = TrainDataset | ValDataset

datatype event =
    Makedirs pyval bool
  | ManualSeed nat
  | CudaManualSeedAll nat
  | LoggerInit pyval
  | Log log_msg
  | EmotionDatasetInit pyval string string
  | GetDataloader dataset bool pyval nat bool
  | GetNumClasses
  | EmotionRecognitionModelInit nat
  | ModelTo string
  | GradScalerInit bool
  | CrossEntropyLossInit
  | ModelParameters
  | AdamInit pyval pyval
  | ReduceLROnPlateauInit string real nat
  | ModelTrain
  | Tqdm nat pyval
  | TensorTo string
  | ZeroGrad
  | AutocastEnter string string
  | CudaAmpAutocastEnter
  | AutocastExit
  | Forward
  | Criterion
  | ScalerScale
  | Backward
  | ScalerStep
  | ScalerUpdate
  | OptimizerStep
  | SetPostfix
  | ModelEval
  | NoGradEnter
  | NoGradExit
  | SchedulerStep real
  | SaveCheckpoint nat real real pyval

subsection \<open>What the collaborators answer\<close>

text \<open>
  One batch as the loop sees it: \<^verbatim>\<open>loss.item()\<close>, and for every sample of the batch
  its label and the class \<^verbatim>\<open>outputs.max(1)\<close> predicted for it.
\<close>

record batch =
  loss_item :: real
  outcomes :: "(nat \<times> nat) list"

text \<open>
  \<open>fails env h ev\<close> is the exception call \<open>ev\<close> raises after history \<open>h\<close>, if any.
  \<open>train_loader env ep\<close> is the list of batches the training loader yields in epoch
  \<open>ep\<close>, and \<^verbatim>\<open>len(train_loader)\<close> is the length of that list; likewise for validation.
  \<open>current_lr env ep\<close> is \<^verbatim>\<open>optimizer.param_groups[0]['lr']\<close> after the scheduler step
  of epoch \<open>ep\<close>.
\<close>

record env =
  fails :: "event list \<Rightarrow> event \<Rightarrow> py_exc option"
  cuda_available :: bool
  gpu_name :: string
  gpu_total_memory :: int
  os_name :: string
  os_cpu_count :: "nat option"
  num_classes :: nat
  train_samples :: nat
  val_samples :: nat
  train_loader :: "nat \<Rightarrow> batch list"
  val_loader :: "nat \<Rightarrow> batch list"
  current_lr :: "nat \<Rightarrow> real"

type_synonym config = "string \<rightharpoonup> pyval"

subsection \<open>Runs\<close>

text \<open>
  A run reads the history (the events before it) and yields the events it performed
  and how it ended: \<open>Inl\<close> an exception, \<open>Inr\<close> its result.
\<close>

type_synonym 'a run = "event list \<Rightarrow> event list \<times> (py_exc + 'a)"

definition returns :: "'a \<Rightarrow> 'a run" where
  "returns x h = ([], Inr x)"

definition raise :: "py_exc \<Rightarrow> 'a run" where
  "raise e h = ([], Inl e)"

definition call :: "env \<Rightarrow> event \<Rightarrow> unit run" where
  "call env ev h = ([ev], case fails env h ev of Some e \<Rightarrow> Inl e | None \<Rightarrow> Inr ())"

definition and_then :: "'a run \<Rightarrow> ('a \<Rightarrow> 'b run) \<Rightarrow> 'b run" where
  "and_then m f h =
     (case m h of
        (es, Inl e) \<Rightarrow> (es, Inl e)
      | (es, Inr x) \<Rightarrow> (case f x (h @ es) of (es', r) \<Rightarrow> (es @ es', r)))"

fun calls :: "env \<Rightarrow> event list \<Rightarrow> unit run" where
  "calls env [] = returns ()"
| "calls env (ev # evs) = and_then (call env ev) (\<lambda>_. calls env evs)"

text \<open>
  \<^verbatim>\<open>with ctx: body\<close>: the context is left on every way out of the body; an exception of
  the body goes on after that, unless leaving raises itself.
\<close>

definition with_block :: "env \<Rightarrow> event \<Rightarrow> event \<Rightarrow> 'a run \<Rightarrow> 'a run" where
  "with_block env enter leave body h =
     (case call env enter h of
        (es, Inl e) \<Rightarrow> (es, Inl e)
      | (es, Inr _) \<Rightarrow>
          (case body (h @ es) of (es', r) \<Rightarrow>
             (case call env leave (h @ es @ es') of
                (es'', Inl e) \<Rightarrow> (es @ es' @ es'', Inl e)
              | (es'', Inr _) \<Rightarrow> (es @ es' @ es'', r))))"

text \<open>\<^verbatim>\<open>try: body except Exception as e: handler\<close>.\<close>

definition try_except :: "'a run \<Rightarrow> (py_exc \<Rightarrow> 'a run) \<Rightarrow> 'a run" where
  "try_except body handler h =
     (case body h of
        (es, Inl e) \<Rightarrow>
          (if is_Exception e
           then (case handler e (h @ es) of (es', r) \<Rightarrow> (es @ es', r))
           else (es, Inl e))
      | (es, Inr x) \<Rightarrow> (es, Inr x))"

text \<open>\<^verbatim>\<open>for x in xs: acc = body(x, acc)\<close>.\<close>

fun for_loop :: "('x \<Rightarrow> 'a \<Rightarrow> 'a run) \<Rightarrow> 'x list \<Rightarrow> 'a \<Rightarrow> 'a run" where
  "for_loop body [] a = returns a"
| "for_loop body (x # xs) a = and_then (body x a) (for_loop body xs)"

text \<open>\<^verbatim>\<open>config[key]\<close>, \<^verbatim>\<open>range(n)\<close> and \<^verbatim>\<open>a / d\<close> for a float and an int.\<close>

definition getitem :: "config \<Rightarrow> string \<Rightarrow> pyval run" where
  "getitem config k = (case config k of None \<Rightarrow> raise (KeyError k) | Some v \<Rightarrow> returns v)"

definition py_range :: "pyval \<Rightarrow> nat list run" where
  "py_range v = (case v of PyInt n \<Rightarrow> returns [0..<nat n] | _ \<Rightarrow> raise TypeError)"

definition truediv :: "real \<Rightarrow> int \<Rightarrow> real run" where
  "truediv a d = (if d = 0 then raise ZeroDivisionError else returns (a / of_int d))"

subsection \<open>The batch loops of \<^verbatim>\<open>train\<close> (lines 90-149)\<close>

text \<open>The counters \<^verbatim>\<open>train_loss\<close>, \<^verbatim>\<open>correct\<close>, \<^verbatim>\<open>total\<close> (and their \<^verbatim>\<open>val_\<close> twins).\<close>

record totals =
  loss_sum :: real
  correct :: int
  total :: int

definition zero_totals :: totals where
  "zero_totals = \<lparr>loss_sum = 0, correct = 0, total = 0\<rparr>"

text \<open>
  Lines 117-120 and 146-149: \<^verbatim>\<open>loss.item()\<close> is added to the loss, \<^verbatim>\<open>labels.size(0)\<close> to
  the total, and \<^verbatim>\<open>predicted.eq(labels).sum().item()\<close> to the correct count.
\<close>

definition accumulate :: "batch \<Rightarrow> totals \<Rightarrow> totals" where
  "accumulate b a =
     \<lparr>loss_sum = loss_sum a + loss_item b,
      correct = correct a
        + int (length (filter (\<lambda>(label, predicted). predicted = label) (outcomes b))),
      total = total a + int (length (outcomes b))\<rparr>"

definition device :: "env \<Rightarrow> string" where
  "device env = (if cuda_available env then ''cuda'' else ''cpu'')"

text \<open>
  One pass of the training loop body, lines 97-126. The numbers shown on the progress
  bar are computed (the divisions can raise) but not recorded in the event.
\<close>

definition train_batch :: "env \<Rightarrow> batch \<Rightarrow> totals \<Rightarrow> totals run" where
  "train_batch env b a =
     and_then (calls env [TensorTo (device env), TensorTo (device env), ZeroGrad]) (\<lambda>_.
     and_then
       (if cuda_available env
        then and_then
               (with_block env (AutocastEnter ''cuda'' ''float16'') AutocastExit
                  (calls env [Forward, Criterion])) (\<lambda>_.
             calls env [ScalerScale, Backward, ScalerStep, ScalerUpdate])
        else calls env [Forward, Criterion, Backward, OptimizerStep]) (\<lambda>_.
     and_then (truediv (loss_sum (accumulate b a)) (total (accumulate b a))) (\<lambda>_.
     and_then (truediv (100 * of_int (correct (accumulate b a))) (total (accumulate b a))) (\<lambda>_.
     and_then (call env SetPostfix) (\<lambda>_.
     returns (accumulate b a))))))"

text \<open>One pass of the validation loop body, lines 136-149.\<close>

definition val_batch :: "env \<Rightarrow> batch \<Rightarrow> totals \<Rightarrow> totals run" where
  "val_batch env b a =
     and_then (calls env [TensorTo (device env), TensorTo (device env)]) (\<lambda>_.
     and_then
       (if cuda_available env
        then with_block env CudaAmpAutocastEnter AutocastExit (calls env [Forward, Criterion])
        else calls env [Forward, Criterion]) (\<lambda>_.
     returns (accumulate b a)))"

subsection \<open>One epoch (lines 89-173)\<close>

definition training_phase :: "env \<Rightarrow> config \<Rightarrow> nat \<Rightarrow> totals run" where
  "training_phase env config ep =
     and_then (call env ModelTrain) (\<lambda>_.
     and_then (getitem config ''num_epochs'') (\<lambda>n.
     and_then (call env (Tqdm (ep + 1) n)) (\<lambda>_.
     for_loop (train_batch env) (train_loader env ep) zero_totals)))"

definition validation_phase :: "env \<Rightarrow> nat \<Rightarrow> totals run" where
  "validation_phase env ep =
     and_then (call env ModelEval) (\<lambda>_.
     with_block env NoGradEnter NoGradExit
       (for_loop (val_batch env) (val_loader env ep) zero_totals))"

text \<open>Lines 153-163: the scheduler step and the log lines of the epoch.\<close>

definition step_and_log :: "env \<Rightarrow> config \<Rightarrow> nat \<Rightarrow> totals \<Rightarrow> totals \<Rightarrow> real \<Rightarrow> unit run" where
  "step_and_log env config ep tr va val_acc =
     and_then (call env (SchedulerStep val_acc)) (\<lambda>_.
     and_then (call env (Log (CurrentLearningRate (current_lr env ep)))) (\<lambda>_.
     and_then (getitem config ''num_epochs'') (\<lambda>n.
     and_then (call env (Log (EpochHeader (ep + 1) n))) (\<lambda>_.
     and_then (truediv (loss_sum tr) (int (length (train_loader env ep)))) (\<lambda>train_loss.
     and_then (truediv (100 * of_int (correct tr)) (total tr)) (\<lambda>train_acc.
     and_then (call env (Log (TrainMetrics train_loss train_acc))) (\<lambda>_.
     and_then (truediv (loss_sum va) (int (length (val_loader env ep)))) (\<lambda>val_loss.
     call env (Log (ValMetrics val_loss val_acc))))))))))"

text \<open>Lines 166-173; the result is the new \<^verbatim>\<open>best_val_acc\<close>.\<close>

definition save_if_improved :: "env \<Rightarrow> config \<Rightarrow> nat \<Rightarrow> totals \<Rightarrow> real \<Rightarrow> real \<Rightarrow> real run" where
  "save_if_improved env config ep va val_acc best_val_acc =
     (if val_acc > best_val_acc
      then and_then (truediv (loss_sum va) (int (length (val_loader env ep)))) (\<lambda>val_loss.
           and_then (getitem config ''checkpoint_dir'') (\<lambda>dir.
           and_then (call env (SaveCheckpoint ep val_loss val_acc dir)) (\<lambda>_.
           and_then (call env (Log (NewBestModel val_acc))) (\<lambda>_.
           returns val_acc))))
      else returns best_val_acc)"

definition epoch :: "env \<Rightarrow> config \<Rightarrow> nat \<Rightarrow> real \<Rightarrow> real run" where
  "epoch env config ep best_val_acc =
     and_then (training_phase env config ep) (\<lambda>tr.
     and_then (validation_phase env ep) (\<lambda>va.
     and_then (truediv (100 * of_int (correct va)) (total va)) (\<lambda>val_acc.
     and_then (step_and_log env config ep tr va val_acc) (\<lambda>_.
     save_if_improved env config ep va val_acc best_val_acc))))"

subsection \<open>\<^verbatim>\<open>train\<close> (lines 15-173) and the script (lines 175-195)\<close>

text \<open>
  \<^verbatim>\<open>os.path.join(d, sub)\<close> for a str \<open>sub\<close>: a \<open>d\<close> that is not a str is a
  \<^verbatim>\<open>TypeError\<close>. The path itself is kept as the pair of its parts, in the event of the
  call it is passed to.
\<close>

definition path_join :: "pyval \<Rightarrow> string \<Rightarrow> unit run" where
  "path_join d sub = (case d of PyStr s \<Rightarrow> returns () | _ \<Rightarrow> raise TypeError)"

text \<open>The body of the \<^verbatim>\<open>try\<close>, lines 31-38.\<close>

definition create_datasets :: "env \<Rightarrow> config \<Rightarrow> unit run" where
  "create_datasets env config =
     and_then (getitem config ''data_dir'') (\<lambda>d.
     and_then (path_join d ''train'') (\<lambda>_.
     and_then (call env (EmotionDatasetInit d ''train'' ''train'')) (\<lambda>_.
     and_then (getitem config ''data_dir'') (\<lambda>d.
     and_then (path_join d ''val'') (\<lambda>_.
     call env (EmotionDatasetInit d ''val'' ''val''))))))"

text \<open>Line 46; \<^verbatim>\<open>os.cpu_count()\<close> may be \<^verbatim>\<open>None\<close>, which \<^verbatim>\<open>min\<close> does not compare.\<close>

definition num_workers :: "env \<Rightarrow> nat run" where
  "num_workers env =
     (if os_name env = ''nt'' then returns 2
      else case os_cpu_count env of None \<Rightarrow> raise TypeError | Some n \<Rightarrow> returns (min n 4))"

text \<open>Lines 44-86: loaders, model, scaler, loss, optimizer, scheduler.\<close>

definition build :: "env \<Rightarrow> config \<Rightarrow> unit run" where
  "build env config =
     and_then (getitem config ''batch_size'') (\<lambda>bs.
     and_then (num_workers env) (\<lambda>nw.
     and_then (calls env
       [GetDataloader TrainDataset True bs nw (cuda_available env),
        GetDataloader ValDataset False bs nw (cuda_available env),
        GetNumClasses,
        Log (NumberOfClasses (num_classes env)),
        Log (TrainingSamples (train_samples env)),
        Log (ValidationSamples (val_samples env)),
        GetNumClasses,
        EmotionRecognitionModelInit (num_classes env),
        ModelTo (device env),
        GradScalerInit (cuda_available env),
        CrossEntropyLossInit,
        ModelParameters]) (\<lambda>_.
     and_then (getitem config ''learning_rate'') (\<lambda>lr.
     and_then (getitem config ''weight_decay'') (\<lambda>wd.
     calls env
       [AdamInit lr wd,
        ReduceLROnPlateauInit ''max'' (1 / 10) 5,
        Log StartingTraining])))))"

text \<open>Lines 85-173: \<^verbatim>\<open>best_val_acc = 0.0\<close> and the loop over \<^verbatim>\<open>range(config['num_epochs'])\<close>.\<close>

definition training_loop :: "env \<Rightarrow> config \<Rightarrow> real run" where
  "training_loop env config =
     and_then (getitem config ''num_epochs'') (\<lambda>n.
     and_then (py_range n) (\<lambda>epochs.
     for_loop (epoch env config) epochs 0))"

text \<open>Lines 17-27.\<close>

definition announce_device :: "env \<Rightarrow> config \<Rightarrow> unit run" where
  "announce_device env config =
     and_then (getitem config ''log_dir'') (\<lambda>log_dir.
     and_then (call env (LoggerInit log_dir)) (\<lambda>_.
     if cuda_available env
     then calls env
            [Log (UsingGPU (gpu_name env)),
             Log (GPUMemory (of_int (gpu_total_memory env) / 1024 ^ 3))]
     else call env (Log CudaNotAvailable)))"

text \<open>
  Lines 30-173: the \<^verbatim>\<open>try\<close> around the two dataset constructions, whose handler logs
  and returns from \<^verbatim>\<open>train\<close>, and everything after it (\<open>after_datasets\<close>, lines 43-173).
\<close>

definition after_datasets :: "env \<Rightarrow> config \<Rightarrow> unit run" where
  "after_datasets env config =
     and_then (build env config) (\<lambda>_.
     and_then (training_loop env config) (\<lambda>_. returns ()))"

definition train_from_datasets :: "env \<Rightarrow> config \<Rightarrow> unit run" where
  "train_from_datasets env config =
     and_then
       (try_except
          (and_then (create_datasets env config) (\<lambda>_. returns True))
          (\<lambda>e. and_then (call env (Log (ErrorCreatingDatasets e))) (\<lambda>_. returns False)))
       (\<lambda>created. if created then after_datasets env config else returns ())"

definition train :: "env \<Rightarrow> config \<Rightarrow> unit run" where
  "train env config =
     and_then (announce_device env config) (\<lambda>_. train_from_datasets env config)"

text \<open>The dict literal of lines 176-184.\<close>

definition main_config :: config where
  "main_config =
     [''data_dir'' \<mapsto> PyStr ''../data/split_images'',
      ''log_dir'' \<mapsto> PyStr ''../logs'',
      ''checkpoint_dir'' \<mapsto> PyStr ''../checkpoints'',
      ''batch_size'' \<mapsto> PyInt 64,
      ''learning_rate'' \<mapsto> PyFloat (1 / 10000),
      ''weight_decay'' \<mapsto> PyFloat (1 / 100000),
      ''num_epochs'' \<mapsto> PyInt 50]"

text \<open>Lines 186-195.\<close>

definition main :: "env \<Rightarrow> unit run" where
  "main env =
     and_then (getitem main_config ''log_dir'') (\<lambda>log_dir.
     and_then (call env (Makedirs log_dir True)) (\<lambda>_.
     and_then (getitem main_config ''checkpoint_dir'') (\<lambda>checkpoint_dir.
     and_then (call env (Makedirs checkpoint_dir True)) (\<lambda>_.
     and_then (call env (ManualSeed 42)) (\<lambda>_.
     and_then (if cuda_available env then call env (CudaManualSeedAll 42) else returns ()) (\<lambda>_.
     train env main_config))))))"

section \<open>Expected behaviour\<close>

text \<open>
  The definitions of this section are not part of the program: they say, in closed
  form, which events a part of \<^verbatim>\<open>train\<close> performs when it returns, and under which
  conditions it does. The lemmas of the next section relate them to the program.

  \<open>ok env h es\<close>: started after history \<open>h\<close>, none of the calls \<open>es\<close> raises.
\<close>

fun ok :: "env \<Rightarrow> event list \<Rightarrow> event list \<Rightarrow> bool" where
  "ok env h [] = True"
| "ok env h (ev # es) = (fails env h ev = None \<and> ok env (h @ [ev]) es)"

subsection \<open>Metrics over all batches of a phase\<close>

text \<open>
  The number of samples whose predicted class equals the label, the number of samples,
  100 times their quotient, and the mean of the batch losses.
\<close>

definition n_correct :: "batch list \<Rightarrow> nat" where
  "n_correct bs =
     length (filter (\<lambda>(label, predicted). predicted = label) (concat (map outcomes bs)))"

definition n_samples :: "batch list \<Rightarrow> nat" where
  "n_samples bs = length (concat (map outcomes bs))"

definition accuracy :: "batch list \<Rightarrow> real" where
  "accuracy bs = 100 * real (n_correct bs) / real (n_samples bs)"

definition mean_loss :: "batch list \<Rightarrow> real" where
  "mean_loss bs = sum_list (map loss_item bs) / real (length bs)"

subsection \<open>The events of a batch, of an epoch and of the loop\<close>

definition train_batch_events :: "env \<Rightarrow> event list" where
  "train_batch_events env =
     [TensorTo (device env), TensorTo (device env), ZeroGrad] @
     (if cuda_available env
      then [AutocastEnter ''cuda'' ''float16'', Forward, Criterion, AutocastExit,
            ScalerScale, Backward, ScalerStep, ScalerUpdate]
      else [Forward, Criterion, Backward, OptimizerStep]) @
     [SetPostfix]"

definition val_batch_events :: "env \<Rightarrow> event list" where
  "val_batch_events env =
     [TensorTo (device env), TensorTo (device env)] @
     (if cuda_available env
      then [CudaAmpAutocastEnter, Forward, Criterion, AutocastExit]
      else [Forward, Criterion])"

definition training_events :: "env \<Rightarrow> config \<Rightarrow> nat \<Rightarrow> event list" where
  "training_events env config ep =
     [ModelTrain, Tqdm (ep + 1) (the (config ''num_epochs''))] @
     concat (replicate (length (train_loader env ep)) (train_batch_events env))"

definition validation_events :: "env \<Rightarrow> nat \<Rightarrow> event list" where
  "validation_events env ep =
     [ModelEval, NoGradEnter] @
     concat (replicate (length (val_loader env ep)) (val_batch_events env)) @
     [NoGradExit]"

definition report_events :: "env \<Rightarrow> config \<Rightarrow> nat \<Rightarrow> event list" where
  "report_events env config ep =
     [SchedulerStep (accuracy (val_loader env ep)),
      Log (CurrentLearningRate (current_lr env ep)),
      Log (EpochHeader (ep + 1) (the (config ''num_epochs''))),
      Log (TrainMetrics (mean_loss (train_loader env ep)) (accuracy (train_loader env ep))),
      Log (ValMetrics (mean_loss (val_loader env ep)) (accuracy (val_loader env ep)))]"

definition checkpoint_events :: "env \<Rightarrow> config \<Rightarrow> nat \<Rightarrow> real \<Rightarrow> event list" where
  "checkpoint_events env config ep best =
     (if accuracy (val_loader env ep) > best
      then [SaveCheckpoint ep (mean_loss (val_loader env ep)) (accuracy (val_loader env ep))
              (the (config ''checkpoint_dir'')),
            Log (NewBestModel (accuracy (val_loader env ep)))]
      else [])"

definition epoch_events :: "env \<Rightarrow> config \<Rightarrow> nat \<Rightarrow> real \<Rightarrow> event list" where
  "epoch_events env config ep best =
     training_events env config ep @ validation_events env ep @
     report_events env config ep @ checkpoint_events env config ep best"

text \<open>
  The best validation accuracy recorded before epoch \<open>k\<close>, and the events of the first
  \<open>n\<close> epochs.
\<close>

definition best_so_far :: "env \<Rightarrow> nat \<Rightarrow> real" where
  "best_so_far env k = fold (\<lambda>ep best. max best (accuracy (val_loader env ep))) [0..<k] 0"

definition loop_events :: "env \<Rightarrow> config \<Rightarrow> nat \<Rightarrow> event list" where
  "loop_events env config n =
     concat (map (\<lambda>ep. epoch_events env config ep (best_so_far env ep)) [0..<n])"

definition loop_length :: "config \<Rightarrow> nat" where
  "loop_length config = (case config ''num_epochs'' of Some (PyInt n) \<Rightarrow> nat n | _ \<Rightarrow> 0)"

subsection \<open>The events before the loop\<close>

definition script_events :: "env \<Rightarrow> event list" where
  "script_events env =
     [Makedirs (PyStr ''../logs'') True, Makedirs (PyStr ''../checkpoints'') True,
      ManualSeed 42] @
     (if cuda_available env then [CudaManualSeedAll 42] else [])"

definition announce_events :: "env \<Rightarrow> config \<Rightarrow> event list" where
  "announce_events env config =
     LoggerInit (the (config ''log_dir'')) #
     (if cuda_available env
      then [Log (UsingGPU (gpu_name env)),
            Log (GPUMemory (of_int (gpu_total_memory env) / 1024 ^ 3))]
      else [Log CudaNotAvailable])"

definition dataset_events :: "config \<Rightarrow> event list" where
  "dataset_events config =
     [EmotionDatasetInit (the (config ''data_dir'')) ''train'' ''train'',
      EmotionDatasetInit (the (config ''data_dir'')) ''val'' ''val'']"

definition workers :: "env \<Rightarrow> nat" where
  "workers env = (if os_name env = ''nt'' then 2 else min (the (os_cpu_count env)) 4)"

definition build_events :: "env \<Rightarrow> config \<Rightarrow> event list" where
  "build_events env config =
     [GetDataloader TrainDataset True (the (config ''batch_size'')) (workers env)
        (cuda_available env),
      GetDataloader ValDataset False (the (config ''batch_size'')) (workers env)
        (cuda_available env),
      GetNumClasses,
      Log (NumberOfClasses (num_classes env)),
      Log (TrainingSamples (train_samples env)),
      Log (ValidationSamples (val_samples env)),
      GetNumClasses,
      EmotionRecognitionModelInit (num_classes env),
      ModelTo (device env),
      GradScalerInit (cuda_available env),
      CrossEntropyLossInit,
      ModelParameters,
      AdamInit (the (config ''learning_rate'')) (the (config ''weight_decay'')),
      ReduceLROnPlateauInit ''max'' (1 / 10) 5,
      Log StartingTraining]"

definition after_events :: "env \<Rightarrow> config \<Rightarrow> event list" where
  "after_events env config = build_events env config @ loop_events env config (loop_length config)"

subsection \<open>When every subscript and division is defined\<close>

definition metrics_defined :: "env \<Rightarrow> nat \<Rightarrow> bool" where
  "metrics_defined env ep \<longleftrightarrow>
     train_loader env ep \<noteq> [] \<and> outcomes (hd (train_loader env ep)) \<noteq> [] \<and>
     n_samples (val_loader env ep) \<noteq> 0"

definition keys_present :: "env \<Rightarrow> config \<Rightarrow> nat \<Rightarrow> real \<Rightarrow> bool" where
  "keys_present env config ep best \<longleftrightarrow>
     config ''num_epochs'' \<noteq> None \<and>
     (accuracy (val_loader env ep) > best \<longrightarrow> config ''checkpoint_dir'' \<noteq> None)"

definition loop_defined :: "env \<Rightarrow> config \<Rightarrow> nat \<Rightarrow> bool" where
  "loop_defined env config n \<longleftrightarrow>
     (\<forall>ep < n. metrics_defined env ep \<and> keys_present env config ep (best_so_far env ep))"

definition build_defined :: "env \<Rightarrow> config \<Rightarrow> bool" where
  "build_defined env config \<longleftrightarrow>
     config ''batch_size'' \<noteq> None \<and> config ''learning_rate'' \<noteq> None \<and>
     config ''weight_decay'' \<noteq> None \<and> (os_name env = ''nt'' \<or> os_cpu_count env \<noteq> None)"

definition after_defined :: "env \<Rightarrow> config \<Rightarrow> bool" where
  "after_defined env config \<longleftrightarrow>
     build_defined env config \<and> (\<exists>n. config ''num_epochs'' = Some (PyInt n)) \<and>
     loop_defined env config (loop_length config)"

text \<open>A run that raises nothing but \<^verbatim>\<open>ZeroDivisionError\<close>, whatever the history.\<close>

definition only_zero_division :: "'a run \<Rightarrow> bool" where
  "only_zero_division m \<longleftrightarrow> (\<forall>h e. snd (m h) = Inl e \<longrightarrow> e = ZeroDivisionError)"

subsection \<open>How an exception leaves a run\<close>

text \<open>
  \<open>is_exit ev\<close>: \<open>ev\<close> is the exit of a \<^verbatim>\<open>with\<close> block. \<open>last_raised env h es\<close>: the
  exception of the last of the calls \<open>es\<close> that raised, if one did. \<open>unhandled env h es e\<close>:
  one of the calls \<open>es\<close> raised, after the first that did nothing was called but exits of
  \<^verbatim>\<open>with\<close> blocks, and \<open>e\<close> is the last exception raised: the exception of the call, or
  of an exit that raised while it went through. \<open>propagating env m\<close>: whenever a call of
  \<open>m\<close> raises, \<open>m\<close> ends so.
\<close>

fun is_exit :: "event \<Rightarrow> bool" where
  "is_exit AutocastExit = True"
| "is_exit NoGradExit = True"
| "is_exit _ = False"

fun last_raised :: "env \<Rightarrow> event list \<Rightarrow> event list \<Rightarrow> py_exc option" where
  "last_raised env h [] = None"
| "last_raised env h (ev # es) =
     (case last_raised env (h @ [ev]) es of Some e \<Rightarrow> Some e | None \<Rightarrow> fails env h ev)"

fun unhandled :: "env \<Rightarrow> event list \<Rightarrow> event list \<Rightarrow> py_exc \<Rightarrow> bool" where
  "unhandled env h [] e = False"
| "unhandled env h (ev # es) e =
     (case fails env h ev of
        None \<Rightarrow> unhandled env (h @ [ev]) es e
      | Some e0 \<Rightarrow> list_all is_exit es \<and> last_raised env h (ev # es) = Some e)"

definition propagating :: "env \<Rightarrow> 'a run \<Rightarrow> bool" where
  "propagating env m \<longleftrightarrow>
     (\<forall>h es r. m h = (es, r) \<longrightarrow>
        (case r of Inr x \<Rightarrow> ok env h es | Inl e \<Rightarrow> ok env h es \<or> unhandled env h es e))"

text \<open>
  The exception that lines 43-173 raise themselves when no call raises: the first
  subscript of a missing key, \<^verbatim>\<open>min\<close> of \<^verbatim>\<open>None\<close>, \<^verbatim>\<open>range\<close> of a value that is not an
  int, or division by zero, in the order of the code; \<open>None\<close> when there is none.
\<close>

definition build_error :: "env \<Rightarrow> config \<Rightarrow> py_exc option" where
  "build_error env config =
     (if config ''batch_size'' = None then Some (KeyError ''batch_size'')
      else if os_name env \<noteq> ''nt'' \<and> os_cpu_count env = None then Some TypeError
      else if config ''learning_rate'' = None then Some (KeyError ''learning_rate'')
      else if config ''weight_decay'' = None then Some (KeyError ''weight_decay'')
      else None)"

definition epoch_error :: "env \<Rightarrow> config \<Rightarrow> nat \<Rightarrow> real \<Rightarrow> py_exc option" where
  "epoch_error env config ep best =
     (if config ''num_epochs'' = None then Some (KeyError ''num_epochs'')
      else if \<not> metrics_defined env ep then Some ZeroDivisionError
      else if accuracy (val_loader env ep) > best \<and> config ''checkpoint_dir'' = None
      then Some (KeyError ''checkpoint_dir'')
      else None)"

fun epochs_error :: "env \<Rightarrow> config \<Rightarrow> nat list \<Rightarrow> real \<Rightarrow> py_exc option" where
  "epochs_error env config [] best = None"
| "epochs_error env config (ep # eps) best =
     (case epoch_error env config ep best of
        Some e \<Rightarrow> Some e
      | None \<Rightarrow> epochs_error env config eps (max best (accuracy (val_loader env ep))))"

definition loop_error :: "env \<Rightarrow> config \<Rightarrow> py_exc option" where
  "loop_error env config =
     (case config ''num_epochs'' of
        None \<Rightarrow> Some (KeyError ''num_epochs'')
      | Some (PyInt n) \<Rightarrow> epochs_error env config [0..<nat n] 0
      | Some _ \<Rightarrow> Some TypeError)"

definition after_error :: "env \<Rightarrow> config \<Rightarrow> py_exc option" where
  "after_error env config =
     (case build_error env config of Some e \<Rightarrow> Some e | None \<Rightarrow> loop_error env config)"

subsection \<open>Selecting events\<close>

fun is_metrics :: "event \<Rightarrow> bool" where
  "is_metrics (Log (TrainMetrics _ _)) = True"
| "is_metrics (Log (ValMetrics _ _)) = True"
| "is_metrics _ = False"

fun is_scheduler :: "event \<Rightarrow> bool" where
  "is_scheduler (ReduceLROnPlateauInit _ _ _) = True"
| "is_scheduler (SchedulerStep _) = True"
| "is_scheduler _ = False"

fun is_checkpoint :: "event \<Rightarrow> bool" where
  "is_checkpoint (SaveCheckpoint _ _ _ _) = True"
| "is_checkpoint _ = False"

fun is_get_dataloader :: "event \<Rightarrow> bool" where
  "is_get_dataloader (GetDataloader _ _ _ _ _) = True"
| "is_get_dataloader _ = False"

definition epochs_started :: "event list \<Rightarrow> nat" where
  "epochs_started es = length (filter (\<lambda>ev. ev = ModelTrain) es)"

subsection \<open>Small environments\<close>

text \<open>
  In \<open>example_env\<close> no call raises. It has three training samples in two batches, and
  two validation samples in one batch, of which one is classified correctly in epochs 0
  and 1 and both from epoch 2 on. \<open>example_gpu_env\<close> is the same with CUDA.
\<close>

definition example_env :: env where
  "example_env =
     \<lparr>fails = (\<lambda>h ev. None), cuda_available = False, gpu_name = ''none'',
      gpu_total_memory = 0, os_name = ''posix'', os_cpu_count = Some 8, num_classes = 7,
      train_samples = 3, val_samples = 2,
      train_loader = (\<lambda>ep. [\<lparr>loss_item = 1, outcomes = [(0, 0), (1, 2)]\<rparr>,
                             \<lparr>loss_item = 2, outcomes = [(3, 3)]\<rparr>]),
      val_loader = (\<lambda>ep. [\<lparr>loss_item = 1 / 2,
                             outcomes = [(0, 0), (1, if ep < 2 then 0 else 1)]\<rparr>]),
      current_lr = (\<lambda>ep. 1 / 10000)\<rparr>"

definition example_gpu_env :: env where
  "example_gpu_env =
     example_env\<lparr>cuda_available := True, gpu_name := ''gpu0'',
                 gpu_total_memory := 8 * 1024 ^ 3\<rparr>"

text \<open>The script's configuration with three epochs, and with one.\<close>

definition example_config :: config where
  "example_config = main_config(''num_epochs'' \<mapsto> PyInt 3)"

definition short_config :: config where
  "short_config = main_config(''num_epochs'' \<mapsto> PyInt 1)"

text \<open>
  Environments where something goes wrong: the validation directory is missing; every
  \<^verbatim>\<open>save_checkpoint\<close> raises; the first training batch is empty; the training loader
  yields nothing.
\<close>

definition missing_data_env :: env where
  "missing_data_env =
     example_env\<lparr>fails := (\<lambda>h ev. case ev of
        EmotionDatasetInit d sub m \<Rightarrow> if m = ''val'' then Some (Raised ''no such directory'') else None
      | _ \<Rightarrow> None)\<rparr>"

definition full_disk_env :: env where
  "full_disk_env =
     example_env\<lparr>fails := (\<lambda>h ev. case ev of
        SaveCheckpoint ep l a d \<Rightarrow> Some (Raised ''no space left on device'')
      | _ \<Rightarrow> None)\<rparr>"

definition empty_first_env :: env where
  "empty_first_env =
     example_env\<lparr>train_loader := (\<lambda>ep. [\<lparr>loss_item = 0, outcomes = []\<rparr>,
                                          \<lparr>loss_item = 1, outcomes = [(0, 0)]\<rparr>])\<rparr>"

definition empty_train_env :: env where
  "empty_train_env = example_env\<lparr>train_loader := (\<lambda>ep. [])\<rparr>"

text \<open>
  The constructor of the training dataset is interrupted from the keyboard; the
  configuration has no \<^verbatim>\<open>data_dir\<close>; its \<^verbatim>\<open>data_dir\<close> is an int.
\<close>

definition interrupt_env :: env where
  "interrupt_env =
     example_env\<lparr>fails := (\<lambda>h ev. case ev of
        EmotionDatasetInit d sub m \<Rightarrow>
          if m = ''train'' then Some (Interrupt ''KeyboardInterrupt'') else None
      | _ \<Rightarrow> None)\<rparr>"

definition no_dir_config :: config where
  "no_dir_config = short_config(''data_dir'' := None)"

definition int_dir_config :: config where
  "int_dir_config = short_config(''data_dir'' \<mapsto> PyInt 5)"

section \<open>When a run returns\<close>

text \<open>
  For every part of the program: it returns (\<open>Inr\<close>) exactly when no call of its
  expected events raises and every subscript and division is defined, and then it has
  performed exactly those events.
\<close>

lemma ok_append: "ok env h (es @ es') = (ok env h es \<and> ok env (h @ es) es')"
  by (induction es arbitrary: h) auto

lemma returns_Inr: "returns x h = (es, Inr y) \<longleftrightarrow> es = [] \<and> y = x"
  by (auto simp: returns_def)

lemma raise_Inr: "raise e h = (es, Inr y) \<longleftrightarrow> False"
  by (simp add: raise_def)

lemma call_Inr: "call env ev h = (es, Inr u) \<longleftrightarrow> es = [ev] \<and> fails env h ev = None"
  by (auto simp: call_def split: option.splits)

lemma and_then_Inr:
  "and_then m f h = (es, Inr y) \<longleftrightarrow>
     (\<exists>es1 x es2. m h = (es1, Inr x) \<and> f x (h @ es1) = (es2, Inr y) \<and> es = es1 @ es2)"
  by (auto simp: and_then_def split: prod.splits sum.splits)

lemma calls_Inr: "calls env evs h = (es, Inr u) \<longleftrightarrow> es = evs \<and> ok env h evs"
  by (induction evs arbitrary: h es) (auto simp: returns_Inr and_then_Inr call_Inr)

lemma with_block_Inr:
  "with_block env enter leave body h = (es, Inr y) \<longleftrightarrow>
     (\<exists>es'. body (h @ [enter]) = (es', Inr y) \<and> es = enter # es' @ [leave] \<and>
        fails env h enter = None \<and> fails env (h @ enter # es') leave = None)"
  by (auto simp: with_block_def call_def split: prod.splits sum.splits option.splits)

lemma getitem_Inr: "getitem config k h = (es, Inr v) \<longleftrightarrow> es = [] \<and> config k = Some v"
  by (auto simp: getitem_def returns_def raise_def split: option.splits)

lemma py_range_Inr: "py_range v h = (es, Inr xs) \<longleftrightarrow> es = [] \<and> (\<exists>n. v = PyInt n \<and> xs = [0..<nat n])"
  by (auto simp: py_range_def returns_def raise_def split: pyval.splits)

lemma truediv_Inr: "truediv a d h = (es, Inr q) \<longleftrightarrow> es = [] \<and> d \<noteq> 0 \<and> q = a / of_int d"
  by (auto simp: truediv_def returns_def raise_def)

lemmas run_Inr = returns_Inr raise_Inr call_Inr and_then_Inr calls_Inr with_block_Inr
  getitem_Inr py_range_Inr truediv_Inr

lemma train_batch_Inr:
  "train_batch env b a h = (es, Inr a') \<longleftrightarrow>
     es = train_batch_events env \<and> ok env h es \<and> total (accumulate b a) \<noteq> 0 \<and>
     a' = accumulate b a"
  by (auto simp: train_batch_def train_batch_events_def run_Inr)

lemma val_batch_Inr:
  "val_batch env b a h = (es, Inr a') \<longleftrightarrow>
     es = val_batch_events env \<and> ok env h es \<and> a' = accumulate b a"
  by (auto simp: val_batch_def val_batch_events_def run_Inr)

lemma fold_accumulate:
  "fold accumulate bs a =
     \<lparr>loss_sum = loss_sum a + sum_list (map loss_item bs),
      correct = correct a + int (n_correct bs),
      total = total a + int (n_samples bs)\<rparr>"
  by (induction bs arbitrary: a) (simp_all add: accumulate_def n_correct_def n_samples_def)

lemma total_accumulate: "total (accumulate b a) = total a + int (length (outcomes b))"
  by (simp add: accumulate_def)

lemma ok_replicate_nil [simp]: "concat (replicate n []) = ([]::event list)"
  by (induction n) simp_all

lemma train_loop_Inr:
  "0 \<le> total a \<Longrightarrow>
   for_loop (train_batch env) bs a h = (es, Inr a') \<longleftrightarrow>
     es = concat (replicate (length bs) (train_batch_events env)) \<and> ok env h es \<and>
     (bs = [] \<or> total a \<noteq> 0 \<or> outcomes (hd bs) \<noteq> []) \<and> a' = fold accumulate bs a"
proof (induction bs arbitrary: a h es)
  case Nil
  then show ?case by (auto simp: returns_Inr)
next
  case (Cons b bs)
  have nonneg: "0 \<le> total (accumulate b a)"
    using Cons.prems by (simp add: total_accumulate)
  have later: "total (accumulate b a) \<noteq> 0 \<Longrightarrow>
      bs = [] \<or> total (accumulate b a) \<noteq> 0 \<or> outcomes (hd bs) \<noteq> []"
    by simp
  have first: "total (accumulate b a) \<noteq> 0 \<longleftrightarrow> total a \<noteq> 0 \<or> outcomes b \<noteq> []"
  proof (cases "outcomes b")
    case Nil
    then show ?thesis by (simp add: total_accumulate)
  next
    case (Cons p ps)
    then show ?thesis using Cons.prems by (simp add: total_accumulate)
  qed
  show ?case
    by (auto simp: and_then_Inr train_batch_Inr Cons.IH [OF nonneg] ok_append first)
qed

lemma val_loop_Inr:
  "for_loop (val_batch env) bs a h = (es, Inr a') \<longleftrightarrow>
     es = concat (replicate (length bs) (val_batch_events env)) \<and> ok env h es \<and>
     a' = fold accumulate bs a"
proof (induction bs arbitrary: a h es)
  case Nil
  then show ?case by (auto simp: returns_Inr)
next
  case (Cons b bs)
  show ?case
    by (auto simp: and_then_Inr val_batch_Inr Cons.IH ok_append)
qed

lemma n_samples_simps [simp]:
  "n_samples [] = 0"
  "n_samples (b # bs) = length (outcomes b) + n_samples bs"
  by (simp_all add: n_samples_def)

lemma n_samples_hd: "bs \<noteq> [] \<Longrightarrow> outcomes (hd bs) \<noteq> [] \<Longrightarrow> 0 < n_samples bs"
  by (cases bs) simp_all

lemma n_samples_nonempty: "0 < n_samples bs \<Longrightarrow> bs \<noteq> []"
  by (cases bs) simp_all

lemma training_phase_Inr:
  "training_phase env config ep h = (es, Inr tr) \<longleftrightarrow>
     config ''num_epochs'' \<noteq> None \<and> es = training_events env config ep \<and> ok env h es \<and>
     (train_loader env ep = [] \<or> outcomes (hd (train_loader env ep)) \<noteq> []) \<and>
     tr = fold accumulate (train_loader env ep) zero_totals"
  by (auto simp: training_phase_def training_events_def and_then_Inr call_Inr getitem_Inr
      train_loop_Inr zero_totals_def ok_append)

lemma validation_phase_Inr:
  "validation_phase env ep h = (es, Inr va) \<longleftrightarrow>
     es = validation_events env ep \<and> ok env h es \<and>
     va = fold accumulate (val_loader env ep) zero_totals"
  by (auto simp: validation_phase_def validation_events_def and_then_Inr call_Inr
      with_block_Inr val_loop_Inr ok_append)

lemma step_and_log_Inr:
  "step_and_log env config ep
     (fold accumulate (train_loader env ep) zero_totals)
     (fold accumulate (val_loader env ep) zero_totals)
     (accuracy (val_loader env ep)) h = (es, Inr u) \<longleftrightarrow>
     config ''num_epochs'' \<noteq> None \<and> es = report_events env config ep \<and> ok env h es \<and>
     train_loader env ep \<noteq> [] \<and> n_samples (train_loader env ep) \<noteq> 0 \<and>
     val_loader env ep \<noteq> []"
  by (auto simp: step_and_log_def report_events_def and_then_Inr call_Inr getitem_Inr
      truediv_Inr fold_accumulate zero_totals_def accuracy_def mean_loss_def)

lemma save_if_improved_Inr:
  "val_loader env ep \<noteq> [] \<Longrightarrow>
   save_if_improved env config ep (fold accumulate (val_loader env ep) zero_totals)
     (accuracy (val_loader env ep)) best h = (es, Inr best') \<longleftrightarrow>
     (accuracy (val_loader env ep) > best \<longrightarrow> config ''checkpoint_dir'' \<noteq> None) \<and>
     es = checkpoint_events env config ep best \<and> ok env h es \<and>
     best' = max best (accuracy (val_loader env ep))"
  by (auto simp: save_if_improved_def checkpoint_events_def and_then_Inr call_Inr getitem_Inr
      truediv_Inr returns_Inr fold_accumulate zero_totals_def mean_loss_def)

lemma epoch_Inr:
  "epoch env config ep best h = (es, Inr best') \<longleftrightarrow>
     es = epoch_events env config ep best \<and> ok env h es \<and>
     metrics_defined env ep \<and> keys_present env config ep best \<and>
     best' = max best (accuracy (val_loader env ep))"
proof -
  have val_acc: "truediv (100 * of_int (correct (fold accumulate (val_loader env ep) zero_totals)))
        (total (fold accumulate (val_loader env ep) zero_totals)) h' = (es', Inr q) \<longleftrightarrow>
      es' = [] \<and> n_samples (val_loader env ep) \<noteq> 0 \<and> q = accuracy (val_loader env ep)"
    for h' es' q
    by (auto simp: truediv_Inr fold_accumulate zero_totals_def accuracy_def)
  show ?thesis
    by (auto simp: epoch_def and_then_Inr training_phase_Inr validation_phase_Inr val_acc
        step_and_log_Inr save_if_improved_Inr epoch_events_def ok_append
        metrics_defined_def keys_present_def n_samples_hd n_samples_nonempty)
qed

lemma and_then_assoc: "and_then (and_then m f) g = and_then m (\<lambda>x. and_then (f x) g)"
  by (rule ext) (simp add: and_then_def split: prod.splits sum.splits)

lemma and_then_returns: "and_then (returns x) f = f x"
  by (rule ext) (simp add: and_then_def returns_def)

lemma for_loop_append:
  "for_loop body (xs @ ys) a = and_then (for_loop body xs a) (for_loop body ys)"
proof (induction xs arbitrary: a)
  case Nil
  show ?case by (simp add: and_then_returns)
next
  case (Cons x xs)
  have "for_loop body (xs @ ys) = (\<lambda>a. and_then (for_loop body xs a) (for_loop body ys))"
    by (rule ext) (rule Cons.IH)
  then show ?case by (simp add: and_then_assoc)
qed

lemma best_so_far_0 [simp]: "best_so_far env 0 = 0"
  by (simp add: best_so_far_def)

lemma best_so_far_Suc [simp]:
  "best_so_far env (Suc k) = max (best_so_far env k) (accuracy (val_loader env k))"
  by (simp add: best_so_far_def)

lemma epochs_Inr:
  "for_loop (epoch env config) [0..<n] 0 h = (es, Inr best) \<longleftrightarrow>
     es = loop_events env config n \<and> ok env h es \<and> loop_defined env config n \<and>
     best = best_so_far env n"
proof (induction n arbitrary: es best)
  case 0
  show ?case by (auto simp: returns_Inr loop_events_def loop_defined_def)
next
  case (Suc n)
  have ev: "loop_events env config (Suc n) =
      loop_events env config n @ epoch_events env config n (best_so_far env n)"
    by (simp add: loop_events_def)
  have df: "loop_defined env config (Suc n) \<longleftrightarrow>
      loop_defined env config n \<and> metrics_defined env n \<and>
      keys_present env config n (best_so_far env n)"
    by (auto simp: loop_defined_def less_Suc_eq)
  show ?case
    by (auto simp: for_loop_append and_then_Inr Suc.IH epoch_Inr returns_Inr ev df ok_append)
qed

lemma training_loop_Inr:
  "training_loop env config h = (es, Inr best) \<longleftrightarrow>
     (\<exists>n. config ''num_epochs'' = Some (PyInt n) \<and> es = loop_events env config (nat n) \<and>
        ok env h es \<and> loop_defined env config (nat n) \<and> best = best_so_far env (nat n))"
  by (auto simp: training_loop_def and_then_Inr getitem_Inr py_range_Inr epochs_Inr)

lemma num_workers_Inr:
  "num_workers env h = (es, Inr n) \<longleftrightarrow>
     es = [] \<and> (os_name env = ''nt'' \<or> os_cpu_count env \<noteq> None) \<and> n = workers env"
  by (auto simp: num_workers_def workers_def returns_def raise_def split: option.splits)

lemma build_Inr:
  "build env config h = (es, Inr u) \<longleftrightarrow>
     es = build_events env config \<and> ok env h es \<and> build_defined env config"
  by (auto simp: build_def build_events_def build_defined_def and_then_Inr getitem_Inr
      num_workers_Inr call_Inr returns_Inr)

lemma announce_device_Inr:
  "announce_device env config h = (es, Inr u) \<longleftrightarrow>
     config ''log_dir'' \<noteq> None \<and> es = announce_events env config \<and> ok env h es"
  by (auto simp: announce_device_def announce_events_def and_then_Inr getitem_Inr call_Inr
      returns_Inr)

lemma path_join_Inr: "path_join d sub h = (es, Inr u) \<longleftrightarrow> es = [] \<and> (\<exists>s. d = PyStr s)"
  by (auto simp: path_join_def returns_def raise_def split: pyval.splits)

lemma create_datasets_Inr:
  "create_datasets env config h = (es, Inr u) \<longleftrightarrow>
     (\<exists>s. config ''data_dir'' = Some (PyStr s)) \<and> es = dataset_events config \<and> ok env h es"
  by (auto simp: create_datasets_def dataset_events_def and_then_Inr getitem_Inr call_Inr
      path_join_Inr)

lemma after_datasets_Inr:
  "after_datasets env config h = (es, Inr u) \<longleftrightarrow>
     es = after_events env config \<and> ok env h es \<and> after_defined env config"
  by (auto simp: after_datasets_def after_events_def after_defined_def and_then_Inr
      build_Inr training_loop_Inr returns_Inr ok_append loop_length_def)

lemma train_from_datasets_created:
  "create_datasets env config h = (es0, Inr ()) \<Longrightarrow>
   train_from_datasets env config h =
     (es0 @ fst (after_datasets env config (h @ es0)), snd (after_datasets env config (h @ es0)))"
  by (simp add: train_from_datasets_def try_except_def and_then_def returns_def
      split: prod.splits sum.splits)

lemma train_from_datasets_caught:
  "create_datasets env config h = (es0, Inl e) \<Longrightarrow> is_Exception e \<Longrightarrow>
   train_from_datasets env config h =
     (es0 @ [Log (ErrorCreatingDatasets e)],
      case fails env (h @ es0) (Log (ErrorCreatingDatasets e)) of
        Some e' \<Rightarrow> Inl e' | None \<Rightarrow> Inr ())"
  by (simp add: train_from_datasets_def try_except_def and_then_def returns_def call_def
      split: prod.splits sum.splits option.splits)

lemma train_from_datasets_uncaught:
  "create_datasets env config h = (es0, Inl e) \<Longrightarrow> \<not> is_Exception e \<Longrightarrow>
   train_from_datasets env config h = (es0, Inl e)"
  by (simp add: train_from_datasets_def try_except_def and_then_def returns_def
      split: prod.splits sum.splits)

lemma ok_never: "fails env = (\<lambda>h ev. None) \<Longrightarrow> ok env h es"
  by (induction es arbitrary: h) simp_all

lemma filter_concat_replicate:
  "filter P (concat (replicate n xs)) = concat (replicate n (filter P xs))"
  by (induction n) simp_all

lemma filter_metrics_batches [simp]:
  "filter is_metrics (train_batch_events env) = []"
  "filter is_metrics (val_batch_events env) = []"
  by (simp_all add: train_batch_events_def val_batch_events_def)

lemma filter_metrics_epoch:
  "filter is_metrics (epoch_events env config ep best) =
     [Log (TrainMetrics (mean_loss (train_loader env ep)) (accuracy (train_loader env ep))),
      Log (ValMetrics (mean_loss (val_loader env ep)) (accuracy (val_loader env ep)))]"
  by (simp add: epoch_events_def training_events_def validation_events_def report_events_def
      checkpoint_events_def filter_concat_replicate)

lemma example_env_simps [simp]:
  "fails example_env = (\<lambda>h ev. None)"
  "cuda_available example_env = False"
  "current_lr example_env ep = 1 / 10000"
  "os_name example_env = ''posix''"
  "os_cpu_count example_env = Some 8"
  by (simp_all add: example_env_def)

lemma example_loaders:
  "train_loader example_env ep =
     [\<lparr>loss_item = 1, outcomes = [(0, 0), (1, 2)]\<rparr>, \<lparr>loss_item = 2, outcomes = [(3, 3)]\<rparr>]"
  "val_loader example_env ep =
     [\<lparr>loss_item = 1 / 2, outcomes = [(0, 0), (1, if ep < 2 then 0 else 1)]\<rparr>]"
  by (simp_all add: example_env_def)

lemma example_config_simps [simp]:
  "example_config ''num_epochs'' = Some (PyInt 3)"
  "example_config ''checkpoint_dir'' = Some (PyStr ''../checkpoints'')"
  "example_config ''log_dir'' = Some (PyStr ''../logs'')"
  "example_config ''data_dir'' = Some (PyStr ''../data/split_images'')"
  "example_config ''batch_size'' = Some (PyInt 64)"
  "example_config ''learning_rate'' = Some (PyFloat (1 / 10000))"
  "example_config ''weight_decay'' = Some (PyFloat (1 / 100000))"
  by (simp_all add: example_config_def main_config_def)

lemma example_metrics [simp]:
  "accuracy (val_loader example_env ep) = (if ep < 2 then 50 else 100)"
  "accuracy (train_loader example_env ep) = 200 / 3"
  "mean_loss (val_loader example_env ep) = 1 / 2"
  "mean_loss (train_loader example_env ep) = 3 / 2"
  "length (train_loader example_env ep) = 2"
  "length (val_loader example_env ep) = 1"
  "metrics_defined example_env ep"
  by (simp_all add: example_loaders accuracy_def mean_loss_def n_correct_def n_samples_def
      metrics_defined_def)

lemma example_epoch:
  "epoch example_env example_config ep best h =
     (epoch_events example_env example_config ep best,
      Inr (max best (accuracy (val_loader example_env ep))))"
  by (simp add: epoch_Inr ok_never keys_present_def)

section \<open>Selections, prefixes and the example environments\<close>

text \<open>
  What the selecting functions find in the expected events; what a part of the program
  has done when it raises; and the runs of the example environments.
\<close>

lemma filter_checkpoint_batches [simp]:
  "filter is_checkpoint (train_batch_events env) = []"
  "filter is_checkpoint (val_batch_events env) = []"
  by (simp_all add: train_batch_events_def val_batch_events_def)

lemma filter_checkpoint_epoch:
  "filter is_checkpoint (epoch_events env config ep best) =
     (if best < accuracy (val_loader env ep)
      then [SaveCheckpoint ep (mean_loss (val_loader env ep)) (accuracy (val_loader env ep))
              (the (config ''checkpoint_dir''))]
      else [])"
  by (simp add: epoch_events_def training_events_def validation_events_def report_events_def
      checkpoint_events_def filter_concat_replicate)

lemma filter_checkpoint_loop:
  "filter is_checkpoint (loop_events env config n) =
     map (\<lambda>ep. SaveCheckpoint ep (mean_loss (val_loader env ep))
                (accuracy (val_loader env ep)) (the (config ''checkpoint_dir'')))
       (filter (\<lambda>ep. best_so_far env ep < accuracy (val_loader env ep)) [0..<n])"
  by (induction n) (simp_all add: loop_events_def filter_checkpoint_epoch)

lemma loop_length_Some [simp]: "config ''num_epochs'' = Some (PyInt n) \<Longrightarrow> loop_length config = nat n"
  by (simp add: loop_length_def)

lemma training_loop_events:
  "training_loop env config h = (es, Inr best) \<Longrightarrow>
     es = loop_events env config (loop_length config) \<and> ok env h es \<and>
     loop_defined env config (loop_length config) \<and>
     best = best_so_far env (loop_length config)"
  by (auto simp: training_loop_Inr)

lemma example_loop_defined [simp]: "loop_defined example_env example_config n"
  by (simp add: loop_defined_def keys_present_def)

lemma example_training_loop:
  "training_loop example_env example_config h =
     (loop_events example_env example_config 3, Inr (best_so_far example_env 3))"
  by (simp add: training_loop_Inr ok_never)

lemma upt_3: "[0..<3] = [0, 1, 2]"
  by (simp add: upt_rec)

lemma best_so_far_Max:
  "best_so_far env k = Max (insert 0 ((\<lambda>ep. accuracy (val_loader env ep)) ` {0..<k}))"
proof (induction k)
  case 0
  show ?case by simp
next
  case (Suc k)
  let ?f = "\<lambda>ep. accuracy (val_loader env ep)"
  have "insert 0 (?f ` {0..<Suc k}) = insert (?f k) (insert 0 (?f ` {0..<k}))"
    by (auto simp: less_Suc_eq)
  then have "Max (insert 0 (?f ` {0..<Suc k})) = max (?f k) (Max (insert 0 (?f ` {0..<k})))"
    by (simp del: Max_insert add: Max_insert [of "insert 0 (?f ` {0..<k})"])
  with Suc show ?case by (simp add: max.commute)
qed

lemma loop_events_prefix:
  "k \<le> n \<Longrightarrow> \<exists>rest. loop_events env config n = loop_events env config k @ rest"
proof -
  assume "k \<le> n"
  then have "[0..<n] = [0..<k] @ [k..<n]"
    by (metis le_add_diff_inverse upt_add_eq_append zero_le)
  then show ?thesis
    by (simp add: loop_events_def)
qed

lemma training_loop_prefix:
  assumes "training_loop env config h = (es, Inr best)" and "k \<le> loop_length config"
  shows "for_loop (epoch env config) [0..<k] 0 h =
    (loop_events env config k, Inr (best_so_far env k))"
proof -
  from assms(1) have all: "ok env h (loop_events env config (loop_length config))"
    and df: "loop_defined env config (loop_length config)"
    using training_loop_events by blast+
  from loop_events_prefix [where env = env and config = config, OF assms(2)] all have "ok env h (loop_events env config k)"
    by (auto simp: ok_append)
  moreover from df assms(2) have "loop_defined env config k"
    by (simp add: loop_defined_def)
  ultimately show ?thesis
    by (simp add: epochs_Inr)
qed

lemma checkpoint_in_loop:
  "SaveCheckpoint ep l a d \<in> set (loop_events env config n) \<Longrightarrow>
     best_so_far env ep < accuracy (val_loader env ep)"
proof -
  assume "SaveCheckpoint ep l a d \<in> set (loop_events env config n)"
  then have "SaveCheckpoint ep l a d \<in> set (filter is_checkpoint (loop_events env config n))"
    by simp
  then show ?thesis
    unfolding filter_checkpoint_loop by auto
qed

lemma example_best [simp]:
  "best_so_far example_env 1 = 50"
  "best_so_far example_env 2 = 50"
  "best_so_far example_env 3 = 100"
  by (simp_all add: eval_nat_numeral)

lemma short_config_simps [simp]:
  "short_config ''num_epochs'' = Some (PyInt 1)"
  "short_config ''checkpoint_dir'' = Some (PyStr ''../checkpoints'')"
  "short_config ''log_dir'' = Some (PyStr ''../logs'')"
  "short_config ''data_dir'' = Some (PyStr ''../data/split_images'')"
  "short_config ''batch_size'' = Some (PyInt 64)"
  "short_config ''learning_rate'' = Some (PyFloat (1 / 10000))"
  "short_config ''weight_decay'' = Some (PyFloat (1 / 100000))"
  by (simp_all add: short_config_def main_config_def)

lemma short_loop_defined [simp]: "loop_defined example_env short_config n"
  by (simp add: loop_defined_def keys_present_def)

lemma short_training_loop:
  "training_loop example_env short_config h =
     (loop_events example_env short_config 1, Inr (best_so_far example_env 1))"
  by (simp add: training_loop_Inr ok_never)

lemma filter_scheduler_batches [simp]:
  "filter is_scheduler (train_batch_events env) = []"
  "filter is_scheduler (val_batch_events env) = []"
  by (simp_all add: train_batch_events_def val_batch_events_def)

lemma filter_scheduler_epoch:
  "filter is_scheduler (epoch_events env config ep best) =
     [SchedulerStep (accuracy (val_loader env ep))]"
  by (simp add: epoch_events_def training_events_def validation_events_def report_events_def
      checkpoint_events_def filter_concat_replicate)

lemma filter_scheduler_loop:
  "filter is_scheduler (loop_events env config n) =
     map (\<lambda>ep. SchedulerStep (accuracy (val_loader env ep))) [0..<n]"
  by (induction n) (simp_all add: loop_events_def filter_scheduler_epoch)

lemma filter_scheduler_build:
  "filter is_scheduler (build_events env config) = [ReduceLROnPlateauInit ''max'' (1 / 10) 5]"
  by (simp add: build_events_def)

lemma after_datasets_events:
  "after_datasets env config h = (es, Inr u) \<Longrightarrow>
     es = build_events env config @ loop_events env config (loop_length config) \<and>
     ok env h es \<and> after_defined env config"
  by (auto simp: after_datasets_Inr after_events_def)

lemma example_after_datasets:
  "after_datasets example_env example_config h =
     (build_events example_env example_config @ loop_events example_env example_config 3,
      Inr ())"
  by (simp add: after_datasets_Inr after_events_def after_defined_def build_defined_def ok_never)

lemma example_gpu_env_simps [simp]:
  "fails example_gpu_env = (\<lambda>h ev. None)"
  "cuda_available example_gpu_env = True"
  "os_name example_gpu_env = ''posix''"
  "os_cpu_count example_gpu_env = Some 8"
  "num_classes example_gpu_env = 7"
  "train_samples example_gpu_env = 3"
  "val_samples example_gpu_env = 2"
  by (simp_all add: example_gpu_env_def example_env_def)

lemma build_events_scaler:
  "GradScalerInit enabled \<in> set (build_events env config) \<longleftrightarrow> enabled = cuda_available env"
  by (auto simp: build_events_def)

lemma and_then_fst:
  "fst (and_then m f h) =
     (case snd (m h) of Inl e \<Rightarrow> fst (m h) | Inr x \<Rightarrow> fst (m h) @ fst (f x (h @ fst (m h))))"
  by (simp add: and_then_def split: prod.splits sum.splits)

lemma calls_prefix: "\<exists>k. fst (calls env evs h) = take k evs"
proof (induction evs arbitrary: h)
  case Nil
  show ?case by (simp add: returns_def)
next
  case (Cons ev evs)
  show ?case
  proof (cases "fails env h ev")
    case None
    from Cons [of "h @ [ev]"] obtain k where "fst (calls env evs (h @ [ev])) = take k evs"
      by blast
    with None have "fst (calls env (ev # evs) h) = take (Suc k) (ev # evs)"
      by (simp add: and_then_fst call_def)
    then show ?thesis by blast
  next
    case (Some e)
    then have "fst (calls env (ev # evs) h) = take 1 (ev # evs)"
      by (simp add: and_then_fst call_def)
    then show ?thesis by blast
  qed
qed

lemma take_prefix: "take k xs = take (min k (length xs)) (xs @ ys)"
  by (cases "k \<le> length xs") (simp_all add: min_def)

lemma calls_snd_Inr: "snd (calls env evs h) = Inr u \<Longrightarrow> fst (calls env evs h) = evs"
  using calls_Inr [of env evs h "fst (calls env evs h)" u] by (simp add: prod_eq_iff)

lemma build_prefix: "\<exists>k. fst (build env config h) = take k (build_events env config)"
proof (cases "config ''batch_size''")
  case None
  then have "fst (build env config h) = take 0 (build_events env config)"
    by (simp add: build_def and_then_def getitem_def raise_def)
  then show ?thesis by blast
next
  case (Some bs)
  show ?thesis
  proof (cases "os_name env = ''nt'' \<or> os_cpu_count env \<noteq> None")
    case False
    with Some have "fst (build env config h) = take 0 (build_events env config)"
      by (simp add: build_def and_then_def getitem_def raise_def returns_def num_workers_def)
    then show ?thesis by blast
  next
    case True
    let ?first = "[GetDataloader TrainDataset True bs (workers env) (cuda_available env),
        GetDataloader ValDataset False bs (workers env) (cuda_available env),
        GetNumClasses,
        Log (NumberOfClasses (num_classes env)),
        Log (TrainingSamples (train_samples env)),
        Log (ValidationSamples (val_samples env)),
        GetNumClasses,
        EmotionRecognitionModelInit (num_classes env),
        ModelTo (device env),
        GradScalerInit (cuda_available env),
        CrossEntropyLossInit,
        ModelParameters]"
    let ?second = "[AdamInit (the (config ''learning_rate'')) (the (config ''weight_decay'')),
        ReduceLROnPlateauInit ''max'' (1 / 10) 5, Log StartingTraining]"
    have all: "build_events env config = ?first @ ?second"
      using Some by (simp add: build_events_def)
    have nw: "num_workers env h = ([], Inr (workers env))"
      using True by (auto simp: num_workers_def workers_def returns_def)
    have unfold: "build env config h =
        and_then (calls env ?first) (\<lambda>_.
        and_then (getitem config ''learning_rate'') (\<lambda>lr.
        and_then (getitem config ''weight_decay'') (\<lambda>wd.
        calls env [AdamInit lr wd, ReduceLROnPlateauInit ''max'' (1 / 10) 5,
                   Log StartingTraining]))) h"
    proof -
      have step1: "getitem config ''batch_size'' = returns bs"
        using Some by (simp add: getitem_def)
      have step2: "and_then (num_workers env) f h = f (workers env) h" for f :: "nat \<Rightarrow> unit run"
        by (simp add: and_then_def nw)
      show ?thesis
        by (simp only: build_def step1 and_then_returns step2)
    qed
    obtain k where k: "fst (calls env ?first h) = take k ?first"
      using calls_prefix by blast
    show ?thesis
    proof (cases "snd (calls env ?first h)")
      case (Inl e)
      then have "fst (build env config h) = take k ?first"
        unfolding unfold by (simp add: and_then_fst k del: calls.simps)
      also have "\<dots> = take (min k (length ?first)) (build_events env config)"
        unfolding all by (rule take_prefix)
      finally show ?thesis by blast
    next
      case (Inr u)
      then have full: "fst (calls env ?first h) = ?first"
        by (rule calls_snd_Inr)
      show ?thesis
      proof (cases "config ''learning_rate'' = None \<or> config ''weight_decay'' = None")
        case True
        then have "fst (build env config h) = ?first"
          unfolding unfold using Inr full
          by (auto simp add: and_then_fst getitem_def raise_def returns_def
              simp del: calls.simps split: option.splits)
        also have "\<dots> = take (length ?first) (build_events env config)"
          unfolding all by simp
        finally show ?thesis by blast
      next
        case False
        then obtain lr wd where keys: "config ''learning_rate'' = Some lr"
            "config ''weight_decay'' = Some wd"
          by auto
        obtain j where j: "fst (calls env ?second (h @ ?first)) = take j ?second"
          using calls_prefix by blast
        have "fst (build env config h) = ?first @ take j ?second"
          unfolding unfold using Inr full keys j
          by (simp add: and_then_fst getitem_def returns_def del: calls.simps)
        also have "\<dots> = take (length ?first + j) (build_events env config)"
          unfolding all by simp
        finally show ?thesis by blast
      qed
    qed
  qed
qed

lemma build_started:
  assumes "fst (build env config h) \<noteq> []"
  shows "config ''batch_size'' \<noteq> None \<and> (os_name env = ''nt'' \<or> os_cpu_count env \<noteq> None)"
proof (rule ccontr)
  assume "\<not> ?thesis"
  then consider "config ''batch_size'' = None"
    | bs where "config ''batch_size'' = Some bs" "os_name env \<noteq> ''nt''" "os_cpu_count env = None"
    by auto
  then have "fst (build env config h) = []"
  proof cases
    case 1
    then show ?thesis
      by (simp add: build_def and_then_def getitem_def raise_def)
  next
    case 2
    then show ?thesis
      by (simp add: build_def and_then_def getitem_def raise_def returns_def num_workers_def)
  qed
  with assms show False by simp
qed

lemma filter_take_two:
  assumes "P a" and "P b" and "filter P rest = []"
  shows "filter P (take k (a # b # rest)) = take k [a, b]"
proof -
  have none: "filter P (take j rest) = []" for j
    using assms(3) by (metis filter_False filter_empty_conv in_set_takeD)
  show ?thesis
  proof (cases k)
    case 0
    then show ?thesis by simp
  next
    case (Suc i)
    then show ?thesis
      using assms(1,2) none by (cases i) simp_all
  qed
qed

lemma filter_dataloader_build:
  "filter is_get_dataloader (take k (build_events env config)) =
     take k [GetDataloader TrainDataset True (the (config ''batch_size'')) (workers env)
               (cuda_available env),
             GetDataloader ValDataset False (the (config ''batch_size'')) (workers env)
               (cuda_available env)]"
  unfolding build_events_def by (rule filter_take_two) simp_all

lemma main_config_simps [simp]:
  "main_config ''num_epochs'' = Some (PyInt 50)"
  "main_config ''checkpoint_dir'' = Some (PyStr ''../checkpoints'')"
  "main_config ''log_dir'' = Some (PyStr ''../logs'')"
  "main_config ''data_dir'' = Some (PyStr ''../data/split_images'')"
  "main_config ''batch_size'' = Some (PyInt 64)"
  "main_config ''learning_rate'' = Some (PyFloat (1 / 10000))"
  "main_config ''weight_decay'' = Some (PyFloat (1 / 100000))"
  by (simp_all add: main_config_def)

lemma main_Inr:
  "main env h = (es, Inr u) \<longleftrightarrow>
     (\<exists>rest. es = script_events env @ rest \<and> ok env h (script_events env) \<and>
        train env main_config (h @ script_events env) = (rest, Inr u))"
  by (auto simp: main_def script_events_def and_then_Inr getitem_Inr call_Inr returns_Inr)

lemma train_Inr:
  "train env config h = (es, Inr u) \<longleftrightarrow>
     (\<exists>rest. es = announce_events env config @ rest \<and> config ''log_dir'' \<noteq> None \<and>
        ok env h (announce_events env config) \<and>
        train_from_datasets env config (h @ announce_events env config) = (rest, Inr u))"
  by (auto simp: train_def and_then_Inr announce_device_Inr)

lemma create_datasets_Inl:
  "create_datasets env config h = (es0, Inl e) \<Longrightarrow>
     es0 = [] \<or> es0 = take 1 (dataset_events config) \<or> es0 = dataset_events config"
  by (auto simp: create_datasets_def dataset_events_def and_then_def getitem_def call_def
      path_join_def raise_def returns_def
      split: option.splits prod.splits sum.splits pyval.splits)

lemma train_from_datasets_Inr:
  "train_from_datasets env config h = (es, Inr ()) \<longleftrightarrow>
     (\<exists>es1. create_datasets env config h = (dataset_events config, Inr ()) \<and>
        after_datasets env config (h @ dataset_events config) = (es1, Inr ()) \<and>
        es = dataset_events config @ es1) \<or>
     (\<exists>es0 e. create_datasets env config h = (es0, Inl e) \<and> is_Exception e \<and>
        fails env (h @ es0) (Log (ErrorCreatingDatasets e)) = None \<and>
        es = es0 @ [Log (ErrorCreatingDatasets e)])"
proof (cases "create_datasets env config h")
  case (Pair es0 r)
  show ?thesis
  proof (cases r)
    case (Inr u)
    with Pair have created: "create_datasets env config h = (es0, Inr ())"
      by simp
    then have es0: "es0 = dataset_events config"
      by (simp add: create_datasets_Inr)
    show ?thesis
      using created es0
      by (auto simp: train_from_datasets_created [OF created] prod_eq_iff)
  next
    case (Inl e)
    with Pair have failed: "create_datasets env config h = (es0, Inl e)"
      by simp
    show ?thesis
    proof (cases "is_Exception e")
      case True
      show ?thesis
        using failed True
        by (auto simp: train_from_datasets_caught [OF failed True] split: option.splits)
    next
      case False
      show ?thesis
        using failed False by (auto simp: train_from_datasets_uncaught [OF failed False])
    qed
  qed
qed

lemma epochs_started_append [simp]:
  "epochs_started (xs @ ys) = epochs_started xs + epochs_started ys"
  by (simp add: epochs_started_def)

lemma epochs_started_batches [simp]:
  "epochs_started (concat (replicate n (train_batch_events env))) = 0"
  "epochs_started (concat (replicate n (val_batch_events env))) = 0"
  by (simp_all add: epochs_started_def filter_concat_replicate train_batch_events_def
      val_batch_events_def)

lemma epochs_started_epoch [simp]: "epochs_started (epoch_events env config ep best) = 1"
  by (simp add: epochs_started_def epoch_events_def training_events_def validation_events_def
      report_events_def checkpoint_events_def filter_concat_replicate train_batch_events_def
      val_batch_events_def)

lemma epochs_started_loop [simp]: "epochs_started (loop_events env config n) = n"
proof (induction n)
  case 0
  show ?case by (simp add: loop_events_def epochs_started_def)
next
  case (Suc n)
  have "loop_events env config (Suc n) =
      loop_events env config n @ epoch_events env config n (best_so_far env n)"
    by (simp add: loop_events_def)
  with Suc show ?case by simp
qed

lemma epochs_started_setup [simp]:
  "epochs_started (script_events env) = 0"
  "epochs_started (announce_events env config) = 0"
  "epochs_started (dataset_events config) = 0"
  "epochs_started (take k (dataset_events config)) = 0"
  "epochs_started (build_events env config) = 0"
  "epochs_started [Log m] = 0"
  "epochs_started [] = 0"
  by (simp_all add: epochs_started_def script_events_def announce_events_def
      dataset_events_def build_events_def take_Cons')

lemma main_config_dom:
  "dom main_config =
     {''data_dir'', ''log_dir'', ''checkpoint_dir'', ''batch_size'', ''learning_rate'',
      ''weight_decay'', ''num_epochs''}"
  by (auto simp: main_config_def)

lemma main_epochs:
  assumes "main env h = (es, Inr ())"
  shows "\<exists>es0 r. create_datasets env main_config
            (h @ script_events env @ announce_events env main_config) = (es0, r) \<and>
          epochs_started es = (case r of Inl e \<Rightarrow> 0 | Inr u \<Rightarrow> 50)"
proof -
  let ?h = "h @ script_events env @ announce_events env main_config"
  from assms obtain rest where es: "es = script_events env @ announce_events env main_config @ rest"
    and run: "train_from_datasets env main_config ?h = (rest, Inr ())"
    by (auto simp: main_Inr train_Inr)
  from run consider
    (created) es1 where "create_datasets env main_config ?h = (dataset_events main_config, Inr ())"
      "after_datasets env main_config (?h @ dataset_events main_config) = (es1, Inr ())"
      "rest = dataset_events main_config @ es1"
    | (caught) es0 e where "create_datasets env main_config ?h = (es0, Inl e)"
      "rest = es0 @ [Log (ErrorCreatingDatasets e)]"
    unfolding train_from_datasets_Inr by blast
  then show ?thesis
  proof cases
    case created
    have "es1 = build_events env main_config @ loop_events env main_config 50"
      using after_datasets_events [OF created(2)] by simp
    with created es show ?thesis by simp
  next
    case caught
    from create_datasets_Inl [OF caught(1)] have "epochs_started es0 = 0"
      by auto
    with caught es show ?thesis by simp
  qed
qed

lemma example_main_loop_defined [simp]: "loop_defined example_env main_config n"
  by (simp add: loop_defined_def keys_present_def)

lemma example_main:
  "main example_env [] =
     (script_events example_env @ announce_events example_env main_config @
      dataset_events main_config @ build_events example_env main_config @
      loop_events example_env main_config 50, Inr ())"
proof -
  have datasets: "create_datasets example_env main_config h =
      (dataset_events main_config, Inr ())" for h
    by (simp add: create_datasets_Inr ok_never)
  have "after_datasets example_env main_config h =
      (build_events example_env main_config @ loop_events example_env main_config 50, Inr ())"
    for h
    by (simp add: after_datasets_Inr after_events_def after_defined_def build_defined_def
        ok_never)
  with datasets have "train_from_datasets example_env main_config h =
      (dataset_events main_config @ build_events example_env main_config @
       loop_events example_env main_config 50, Inr ())" for h
    by (simp add: train_from_datasets_Inr)
  then show ?thesis
    by (simp add: main_Inr train_Inr ok_never)
qed

lemma ozd_returns [simp]: "only_zero_division (returns x)"
  by (simp add: only_zero_division_def returns_def)

lemma ozd_truediv [simp]: "only_zero_division (truediv a d)"
  by (simp add: only_zero_division_def truediv_def returns_def raise_def)

lemma ozd_call [simp]: "fails env = (\<lambda>h ev. None) \<Longrightarrow> only_zero_division (call env ev)"
  by (simp add: only_zero_division_def call_def)

lemma ozd_getitem [simp]: "config k \<noteq> None \<Longrightarrow> only_zero_division (getitem config k)"
  by (auto simp: only_zero_division_def getitem_def returns_def)

lemma ozd_and_then:
  "only_zero_division m \<Longrightarrow> (\<And>x. only_zero_division (f x)) \<Longrightarrow>
     only_zero_division (and_then m f)"
  unfolding only_zero_division_def and_then_def
  by (auto split: prod.splits sum.splits) (metis snd_conv)+

lemma ozd_calls [simp]: "fails env = (\<lambda>h ev. None) \<Longrightarrow> only_zero_division (calls env evs)"
  by (induction evs) (simp_all add: ozd_and_then)

lemma ozd_with_block:
  "fails env = (\<lambda>h ev. None) \<Longrightarrow> only_zero_division body \<Longrightarrow>
     only_zero_division (with_block env enter leave body)"
  unfolding only_zero_division_def with_block_def call_def
  by (auto split: prod.splits sum.splits) (metis snd_conv)+

lemma ozd_for_loop:
  "(\<And>x a. only_zero_division (body x a)) \<Longrightarrow> only_zero_division (for_loop body xs a)"
  by (induction xs arbitrary: a) (simp_all add: ozd_and_then)

lemma ozd_if: "only_zero_division m \<Longrightarrow> only_zero_division m' \<Longrightarrow>
    only_zero_division (if c then m else m')"
  by simp

lemma ozd_epoch:
  assumes "fails env = (\<lambda>h ev. None)" and "config ''num_epochs'' \<noteq> None"
    and "config ''checkpoint_dir'' \<noteq> None"
  shows "only_zero_division (epoch env config ep best)"
  unfolding epoch_def training_phase_def validation_phase_def step_and_log_def
    save_if_improved_def train_batch_def val_batch_def
  by (intro ozd_and_then ozd_with_block ozd_for_loop ozd_if ozd_call ozd_calls ozd_getitem
      ozd_truediv ozd_returns assms)

lemma empty_first_env_simps [simp]:
  "fails empty_first_env = (\<lambda>h ev. None)"
  "train_loader empty_first_env ep =
     [\<lparr>loss_item = 0, outcomes = []\<rparr>, \<lparr>loss_item = 1, outcomes = [(0, 0)]\<rparr>]"
  "val_loader empty_first_env = val_loader example_env"
  by (simp_all add: empty_first_env_def example_env_def)

lemma empty_train_env_simps [simp]:
  "fails empty_train_env = (\<lambda>h ev. None)"
  "train_loader empty_train_env ep = []"
  "val_loader empty_train_env = val_loader example_env"
  by (simp_all add: empty_train_env_def example_env_def)

lemma epoch_outcome:
  assumes "fails env = (\<lambda>h ev. None)" and "config ''num_epochs'' \<noteq> None"
    and "config ''checkpoint_dir'' \<noteq> None"
  shows "snd (epoch env config ep best h) =
     (if metrics_defined env ep then Inr (max best (accuracy (val_loader env ep)))
      else Inl ZeroDivisionError)"
proof (cases "metrics_defined env ep")
  case True
  with assms have "epoch env config ep best h =
      (epoch_events env config ep best, Inr (max best (accuracy (val_loader env ep))))"
    by (simp add: epoch_Inr ok_never keys_present_def)
  with True show ?thesis by simp
next
  case False
  have "snd (epoch env config ep best h) = Inl ZeroDivisionError"
  proof (cases "snd (epoch env config ep best h)")
    case (Inl e)
    with ozd_epoch [OF assms, of ep best] show ?thesis
      by (simp add: only_zero_division_def)
  next
    case (Inr b)
    then have "epoch env config ep best h = (fst (epoch env config ep best h), Inr b)"
      by (simp add: prod_eq_iff)
    then have "metrics_defined env ep"
      by (simp only: epoch_Inr)
    with False show ?thesis by simp
  qed
  with False show ?thesis by simp
qed

section \<open>When a run raises\<close>

text \<open>
  Every part of lines 43-173 is \<open>propagating\<close>: there is no handler in them. When a part
  raises though none of its calls did, the exception is the one its error function names.
\<close>

lemma last_raised_append:
  "last_raised env h (es @ es') =
     (case last_raised env (h @ es) es' of Some e \<Rightarrow> Some e | None \<Rightarrow> last_raised env h es)"
  by (induction es arbitrary: h) (auto split: option.splits)

lemma ok_last_raised: "ok env h es \<Longrightarrow> last_raised env h es = None"
  by (induction es arbitrary: h) auto

lemma unhandled_append_ok:
  "ok env h es \<Longrightarrow> unhandled env h (es @ es') e = unhandled env (h @ es) es' e"
  by (induction es arbitrary: h) auto

lemma unhandled_last_raised: "unhandled env h es e \<Longrightarrow> last_raised env h es = Some e"
  by (induction es arbitrary: h) (auto split: option.splits)

lemma unhandled_snoc:
  "unhandled env h es e \<Longrightarrow> is_exit lv \<Longrightarrow>
     unhandled env h (es @ [lv]) (case fails env (h @ es) lv of Some e' \<Rightarrow> e' | None \<Rightarrow> e)"
proof (induction es arbitrary: h)
  case Nil
  then show ?case by simp
next
  case (Cons ev es)
  show ?case
  proof (cases "fails env h ev")
    case None
    with Cons.IH [of "h @ [ev]"] Cons.prems show ?thesis by simp
  next
    case (Some e0)
    with Cons.prems have exits: "list_all is_exit es"
      and last: "last_raised env h (ev # es) = Some e"
      by simp_all
    have "last_raised env h ((ev # es) @ [lv]) =
        Some (case fails env (h @ ev # es) lv of Some e' \<Rightarrow> e' | None \<Rightarrow> e)"
      unfolding last_raised_append using last by (simp split: option.splits)
    with Some exits Cons.prems(2) show ?thesis by simp
  qed
qed

lemma unhandled_first:
  "ok env h es \<Longrightarrow> fails env (h @ es) ev = Some e \<Longrightarrow> unhandled env h (es @ [ev]) e"
  by (simp add: unhandled_append_ok)

lemma propagatingD:
  "propagating env m \<Longrightarrow> m h = (es, r) \<Longrightarrow>
     (case r of Inr x \<Rightarrow> ok env h es | Inl e \<Rightarrow> ok env h es \<or> unhandled env h es e)"
  by (simp add: propagating_def)

lemma propagating_returns [simp]: "propagating env (returns x)"
  by (simp add: propagating_def returns_def)

lemma propagating_raise [simp]: "propagating env (raise e)"
  by (simp add: propagating_def raise_def)

lemma propagating_call [simp]: "propagating env (call env ev)"
  by (auto simp: propagating_def call_def split: option.splits)

lemma propagating_and_then:
  assumes "propagating env m" and "\<And>x. propagating env (f x)"
  shows "propagating env (and_then m f)"
  unfolding propagating_def
proof (intro allI impI)
  fix h es r
  assume run: "and_then m f h = (es, r)"
  obtain es1 r1 where m: "m h = (es1, r1)" by (cases "m h")
  show "case r of Inr x \<Rightarrow> ok env h es | Inl e \<Rightarrow> ok env h es \<or> unhandled env h es e"
  proof (cases r1)
    case (Inl e1)
    with run m have "es = es1" "r = Inl e1"
      by (simp_all add: and_then_def)
    with propagatingD [OF assms(1) m] Inl show ?thesis
      by simp
  next
    case (Inr x)
    obtain es2 r2 where f: "f x (h @ es1) = (es2, r2)" by (cases "f x (h @ es1)")
    with run m Inr have es: "es = es1 @ es2" and r: "r = r2"
      by (simp_all add: and_then_def)
    from propagatingD [OF assms(1) m] Inr have ok1: "ok env h es1"
      by simp
    from propagatingD [OF assms(2) f]
    have "case r2 of Inr y \<Rightarrow> ok env (h @ es1) es2
        | Inl e \<Rightarrow> ok env (h @ es1) es2 \<or> unhandled env (h @ es1) es2 e" .
    with ok1 show ?thesis
      unfolding es r by (auto simp: ok_append unhandled_append_ok split: sum.splits)
  qed
qed

lemma propagating_calls [simp]: "propagating env (calls env evs)"
  by (induction evs) (simp_all add: propagating_and_then)

lemma propagating_for_loop:
  "(\<And>x a. propagating env (body x a)) \<Longrightarrow> propagating env (for_loop body xs a)"
  by (induction xs arbitrary: a) (simp_all add: propagating_and_then)

lemma propagating_if:
  "propagating env m \<Longrightarrow> propagating env m' \<Longrightarrow> propagating env (if c then m else m')"
  by simp

lemma propagating_getitem [simp]: "propagating env (getitem config k)"
  by (simp add: getitem_def split: option.splits)

lemma propagating_py_range [simp]: "propagating env (py_range v)"
  by (simp add: py_range_def split: pyval.splits)

lemma propagating_truediv [simp]: "propagating env (truediv a d)"
  by (simp add: truediv_def)

lemma propagating_num_workers [simp]: "propagating env (num_workers env)"
  by (simp add: num_workers_def split: option.splits)

lemma propagating_with_block:
  assumes "propagating env body" and "is_exit leave"
  shows "propagating env (with_block env enter leave body)"
  unfolding propagating_def
proof (intro allI impI)
  fix h es r
  assume run: "with_block env enter leave body h = (es, r)"
  show "case r of Inr x \<Rightarrow> ok env h es | Inl e \<Rightarrow> ok env h es \<or> unhandled env h es e"
  proof (cases "fails env h enter")
    case (Some e)
    with run have "es = [enter]" "r = Inl e"
      by (simp_all add: with_block_def call_def)
    with Some show ?thesis by simp
  next
    case None
    obtain es' r' where b: "body (h @ [enter]) = (es', r')" by (cases "body (h @ [enter])")
    from propagatingD [OF assms(1) b]
    have inner: "case r' of Inr x \<Rightarrow> ok env (h @ [enter]) es'
        | Inl e \<Rightarrow> ok env (h @ [enter]) es' \<or> unhandled env (h @ [enter]) es' e" .
    show ?thesis
    proof (cases "fails env (h @ enter # es') leave")
      case (Some e')
      with run None b have es: "es = enter # es' @ [leave]" and r: "r = Inl e'"
        by (simp_all add: with_block_def call_def)
      have "unhandled env (h @ [enter]) (es' @ [leave]) e'"
      proof (cases "ok env (h @ [enter]) es'")
        case True
        with Some show ?thesis by (simp add: unhandled_first)
      next
        case False
        with inner obtain e where "unhandled env (h @ [enter]) es' e"
          by (auto split: sum.splits)
        from unhandled_snoc [OF this assms(2)] Some show ?thesis by simp
      qed
      with None show ?thesis
        unfolding es r by simp
    next
      case leave_ok: None
      with run None b have es: "es = enter # es' @ [leave]" and r: "r = r'"
        by (simp_all add: with_block_def call_def)
      show ?thesis
      proof (cases r')
        case (Inr x)
        with inner None leave_ok show ?thesis
          unfolding es r by (simp add: ok_append)
      next
        case (Inl e)
        show ?thesis
        proof (cases "ok env (h @ [enter]) es'")
          case True
          with None leave_ok Inl show ?thesis
            unfolding es r by (simp add: ok_append)
        next
          case False
          with inner Inl have "unhandled env (h @ [enter]) es' e"
            by simp
          from unhandled_snoc [OF this assms(2)] leave_ok
          have "unhandled env (h @ [enter]) (es' @ [leave]) e" by simp
          with None Inl show ?thesis
            unfolding es r by simp
        qed
      qed
    qed
  qed
qed

lemma propagating_after_datasets: "propagating env (after_datasets env config)"
  unfolding after_datasets_def build_def training_loop_def epoch_def training_phase_def
    validation_phase_def step_and_log_def save_if_improved_def train_batch_def val_batch_def
  by (intro propagating_and_then propagating_with_block propagating_for_loop propagating_if
      propagating_call propagating_calls propagating_getitem propagating_py_range
      propagating_truediv propagating_num_workers propagating_returns) simp_all

lemma and_then_Inl:
  "and_then m f h = (es, Inl e) \<longleftrightarrow>
     m h = (es, Inl e) \<or>
     (\<exists>es1 x es2. m h = (es1, Inr x) \<and> f x (h @ es1) = (es2, Inl e) \<and> es = es1 @ es2)"
  by (auto simp: and_then_def split: prod.splits sum.splits)

lemma returns_Inl: "returns x h = (es, Inl e) \<longleftrightarrow> False"
  by (simp add: returns_def)

lemma raise_Inl: "raise e' h = (es, Inl e) \<longleftrightarrow> es = [] \<and> e = e'"
  by (auto simp: raise_def)

lemma call_Inl: "call env ev h = (es, Inl e) \<longleftrightarrow> es = [ev] \<and> fails env h ev = Some e"
  by (auto simp: call_def split: option.splits)

lemma getitem_Inl:
  "getitem config k h = (es, Inl e) \<longleftrightarrow> es = [] \<and> config k = None \<and> e = KeyError k"
  by (auto simp: getitem_def returns_def raise_def split: option.splits)

lemma py_range_Inl:
  "py_range v h = (es, Inl e) \<longleftrightarrow> es = [] \<and> (\<forall>n. v \<noteq> PyInt n) \<and> e = TypeError"
  by (auto simp: py_range_def returns_def raise_def split: pyval.splits)

lemma truediv_Inl: "truediv a d h = (es, Inl e) \<longleftrightarrow> es = [] \<and> d = 0 \<and> e = ZeroDivisionError"
  by (auto simp: truediv_def returns_def raise_def)

lemma num_workers_Inl:
  "num_workers env h = (es, Inl e) \<longleftrightarrow>
     es = [] \<and> os_name env \<noteq> ''nt'' \<and> os_cpu_count env = None \<and> e = TypeError"
  by (auto simp: num_workers_def returns_def raise_def split: option.splits)

lemma path_join_Inl:
  "path_join d sub h = (es, Inl e) \<longleftrightarrow> es = [] \<and> (\<forall>s. d \<noteq> PyStr s) \<and> e = TypeError"
  by (auto simp: path_join_def returns_def raise_def split: pyval.splits)

lemma calls_quiet: "calls env evs h = (es, Inl e) \<Longrightarrow> \<not> ok env h es"
  by (induction evs arbitrary: h es)
     (auto simp: returns_Inl and_then_Inl call_Inl call_Inr)

lemma with_block_quiet:
  "with_block env enter leave body h = (es, Inl e) \<Longrightarrow> ok env h es \<Longrightarrow>
     \<exists>es'. body (h @ [enter]) = (es', Inl e) \<and> ok env (h @ [enter]) es'"
  by (auto simp: with_block_def call_def ok_append split: prod.splits sum.splits option.splits)

lemmas run_Inl = and_then_Inl returns_Inl raise_Inl call_Inl getitem_Inl py_range_Inl
  truediv_Inl num_workers_Inl

lemma with_block_calls_quiet:
  "with_block env enter leave (calls env evs) h = (es, Inl e) \<Longrightarrow> \<not> ok env h es"
  using with_block_quiet calls_quiet by blast

lemma train_batch_quiet:
  "train_batch env b a h = (es, Inl e) \<Longrightarrow> ok env h es \<Longrightarrow>
     e = ZeroDivisionError \<and> total (accumulate b a) = 0"
  by (auto simp: train_batch_def run_Inl and_then_Inr calls_Inr with_block_Inr truediv_Inr
        call_Inr returns_Inr ok_append
      simp del: calls.simps
      dest: calls_quiet with_block_calls_quiet split: if_splits)

lemma val_batch_quiet: "val_batch env b a h = (es, Inl e) \<Longrightarrow> \<not> ok env h es"
  by (auto simp: val_batch_def run_Inl and_then_Inr calls_Inr with_block_Inr returns_Inr
        ok_append
      simp del: calls.simps
      dest: calls_quiet with_block_calls_quiet split: if_splits)

lemma train_loop_quiet:
  "0 \<le> total a \<Longrightarrow> for_loop (train_batch env) bs a h = (es, Inl e) \<Longrightarrow> ok env h es \<Longrightarrow>
     e = ZeroDivisionError \<and> total a = 0 \<and> bs \<noteq> [] \<and> outcomes (hd bs) = []"
proof (induction bs arbitrary: a h es)
  case Nil
  then show ?case by (simp add: returns_Inl)
next
  case (Cons b bs)
  have nonneg: "0 \<le> total (accumulate b a)"
    using Cons.prems(1) by (simp add: total_accumulate)
  from Cons.prems(2) consider
      (first) "train_batch env b a h = (es, Inl e)"
    | (later) es1 es2 where "train_batch env b a h = (es1, Inr (accumulate b a))"
        "total (accumulate b a) \<noteq> 0"
        "for_loop (train_batch env) bs (accumulate b a) (h @ es1) = (es2, Inl e)"
        "es = es1 @ es2"
    by (auto simp: and_then_Inl train_batch_Inr)
  then show ?case
  proof cases
    case first
    from train_batch_quiet [OF first Cons.prems(3)]
    have "e = ZeroDivisionError" and "total (accumulate b a) = 0"
      by simp_all
    then show ?thesis
      using Cons.prems(1) by (cases "outcomes b") (simp_all add: total_accumulate)
  next
    case later
    from Cons.prems(3) later(4) have "ok env (h @ es1) es2"
      by (simp add: ok_append)
    from Cons.IH [OF nonneg later(3) this] later(2) show ?thesis
      by simp
  qed
qed

lemma val_loop_quiet: "for_loop (val_batch env) bs a h = (es, Inl e) \<Longrightarrow> \<not> ok env h es"
proof (induction bs arbitrary: a h es)
  case Nil
  then show ?case by (simp add: returns_Inl)
next
  case (Cons b bs)
  then show ?case
    by (auto simp: and_then_Inl val_batch_Inr ok_append dest: val_batch_quiet)
qed

lemma training_phase_quiet:
  "training_phase env config ep h = (es, Inl e) \<Longrightarrow> ok env h es \<Longrightarrow>
     (config ''num_epochs'' = None \<and> e = KeyError ''num_epochs'') \<or>
     (config ''num_epochs'' \<noteq> None \<and> e = ZeroDivisionError \<and>
      train_loader env ep \<noteq> [] \<and> outcomes (hd (train_loader env ep)) = [])"
  by (auto simp: training_phase_def run_Inl and_then_Inr call_Inr getitem_Inr ok_append
        zero_totals_def
      dest: train_loop_quiet [rotated])

lemma validation_phase_quiet:
  "validation_phase env ep h = (es, Inl e) \<Longrightarrow> \<not> ok env h es"
  by (auto simp: validation_phase_def run_Inl and_then_Inr call_Inr ok_append
      dest: with_block_quiet val_loop_quiet)

lemma step_and_log_quiet:
  "step_and_log env config ep
     (fold accumulate (train_loader env ep) zero_totals)
     (fold accumulate (val_loader env ep) zero_totals)
     (accuracy (val_loader env ep)) h = (es, Inl e) \<Longrightarrow> ok env h es \<Longrightarrow>
     (config ''num_epochs'' = None \<and> e = KeyError ''num_epochs'') \<or>
     (e = ZeroDivisionError \<and>
      (train_loader env ep = [] \<or> n_samples (train_loader env ep) = 0 \<or>
       val_loader env ep = []))"
  by (auto simp: step_and_log_def run_Inl and_then_Inr call_Inr getitem_Inr truediv_Inr
        fold_accumulate zero_totals_def ok_append)

lemma save_if_improved_quiet:
  "val_loader env ep \<noteq> [] \<Longrightarrow>
   save_if_improved env config ep (fold accumulate (val_loader env ep) zero_totals)
     (accuracy (val_loader env ep)) best h = (es, Inl e) \<Longrightarrow> ok env h es \<Longrightarrow>
     accuracy (val_loader env ep) > best \<and> config ''checkpoint_dir'' = None \<and>
     e = KeyError ''checkpoint_dir''"
  by (auto simp: save_if_improved_def run_Inl and_then_Inr call_Inr getitem_Inr truediv_Inr
        fold_accumulate zero_totals_def ok_append split: if_splits)

lemma epoch_quiet:
  assumes "epoch env config ep best h = (es, Inl e)" and "ok env h es"
  shows "epoch_error env config ep best = Some e"
proof -
  let ?tr = "fold accumulate (train_loader env ep) zero_totals"
  let ?va = "fold accumulate (val_loader env ep) zero_totals"
  have val_acc: "truediv (100 * of_int (correct ?va)) (total ?va) h' = (es', Inr q) \<longleftrightarrow>
      es' = [] \<and> n_samples (val_loader env ep) \<noteq> 0 \<and> q = accuracy (val_loader env ep)"
    for h' es' q
    by (auto simp: truediv_Inr fold_accumulate zero_totals_def accuracy_def)
  have val_acc_Inl: "truediv (100 * of_int (correct ?va)) (total ?va) h' = (es', Inl e) \<longleftrightarrow>
      es' = [] \<and> n_samples (val_loader env ep) = 0 \<and> e = ZeroDivisionError"
    for h' es'
    by (auto simp: truediv_Inl fold_accumulate zero_totals_def)
  from assms(1) consider
      (training) "training_phase env config ep h = (es, Inl e)"
    | (validation) es1 es2 where "training_phase env config ep h = (es1, Inr ?tr)"
        "validation_phase env ep (h @ es1) = (es2, Inl e)" "es = es1 @ es2"
    | (accuracy) es1 es2 where "training_phase env config ep h = (es1, Inr ?tr)"
        "validation_phase env ep (h @ es1) = (es2, Inr ?va)" "es = es1 @ es2"
        "n_samples (val_loader env ep) = 0" "e = ZeroDivisionError"
    | (report) es1 es2 es3 where "training_phase env config ep h = (es1, Inr ?tr)"
        "validation_phase env ep (h @ es1) = (es2, Inr ?va)"
        "n_samples (val_loader env ep) \<noteq> 0"
        "step_and_log env config ep ?tr ?va (accuracy (val_loader env ep)) (h @ es1 @ es2) =
           (es3, Inl e)"
        "es = es1 @ es2 @ es3"
    | (save) es1 es2 es3 es4 where "training_phase env config ep h = (es1, Inr ?tr)"
        "validation_phase env ep (h @ es1) = (es2, Inr ?va)"
        "n_samples (val_loader env ep) \<noteq> 0"
        "step_and_log env config ep ?tr ?va (accuracy (val_loader env ep)) (h @ es1 @ es2) =
           (es3, Inr ())"
        "save_if_improved env config ep ?va (accuracy (val_loader env ep)) best
           (h @ es1 @ es2 @ es3) = (es4, Inl e)"
        "es = es1 @ es2 @ es3 @ es4"
    unfolding epoch_def
    by (auto simp: and_then_Inl training_phase_Inr validation_phase_Inr val_acc val_acc_Inl)
  then show ?thesis
  proof cases
    case training
    from training_phase_quiet [OF training assms(2)] show ?thesis
      by (auto simp: epoch_error_def metrics_defined_def)
  next
    case validation
    with assms(2) have "ok env (h @ es1) es2"
      by (simp add: ok_append)
    with validation_phase_quiet [OF validation(2)] show ?thesis
      by simp
  next
    case accuracy
    then have "config ''num_epochs'' \<noteq> None"
      by (simp add: training_phase_Inr)
    with accuracy show ?thesis
      by (simp add: epoch_error_def metrics_defined_def)
  next
    case report
    from report(1) have tr: "config ''num_epochs'' \<noteq> None"
        "train_loader env ep = [] \<or> outcomes (hd (train_loader env ep)) \<noteq> []"
      by (simp_all add: training_phase_Inr)
    from assms(2) report(5) have "ok env (h @ es1 @ es2) es3"
      by (simp add: ok_append)
    from step_and_log_quiet [OF report(4) this] tr(1)
    have zd: "e = ZeroDivisionError"
      and which: "train_loader env ep = [] \<or> n_samples (train_loader env ep) = 0 \<or>
        val_loader env ep = []"
      by simp_all
    have "\<not> metrics_defined env ep"
    proof
      assume md: "metrics_defined env ep"
      then have "0 < n_samples (train_loader env ep)"
        by (simp add: metrics_defined_def n_samples_hd)
      moreover from md have "val_loader env ep \<noteq> []"
        by (auto simp: metrics_defined_def)
      moreover from md have "train_loader env ep \<noteq> []"
        by (simp add: metrics_defined_def)
      ultimately show False
        using which by simp
    qed
    with tr(1) zd show ?thesis
      by (simp add: epoch_error_def)
  next
    case save
    from save(4) have df: "config ''num_epochs'' \<noteq> None" "train_loader env ep \<noteq> []"
        "n_samples (train_loader env ep) \<noteq> 0" "val_loader env ep \<noteq> []"
      by (simp_all add: step_and_log_Inr)
    from save(1) df(2) have "outcomes (hd (train_loader env ep)) \<noteq> []"
      by (simp add: training_phase_Inr)
    with df save(3) have md: "metrics_defined env ep"
      by (simp add: metrics_defined_def)
    from assms(2) save(6) have "ok env (h @ es1 @ es2 @ es3) es4"
      by (simp add: ok_append)
    from save_if_improved_quiet [OF df(4) save(5) this] df(1) md show ?thesis
      by (simp add: epoch_error_def)
  qed
qed

lemma epoch_error_None:
  "metrics_defined env ep \<Longrightarrow> keys_present env config ep best \<Longrightarrow>
     epoch_error env config ep best = None"
  by (auto simp: epoch_error_def keys_present_def)

lemma epochs_quiet:
  "for_loop (epoch env config) eps best h = (es, Inl e) \<Longrightarrow> ok env h es \<Longrightarrow>
     epochs_error env config eps best = Some e"
proof (induction eps arbitrary: best h es)
  case Nil
  then show ?case by (simp add: returns_Inl)
next
  case (Cons ep eps)
  from Cons.prems(1) consider
      (first) "epoch env config ep best h = (es, Inl e)"
    | (later) es1 es2 where
        "epoch env config ep best h = (es1, Inr (max best (accuracy (val_loader env ep))))"
        "metrics_defined env ep" "keys_present env config ep best"
        "for_loop (epoch env config) eps (max best (accuracy (val_loader env ep))) (h @ es1) =
           (es2, Inl e)"
        "es = es1 @ es2"
    by (auto simp: and_then_Inl epoch_Inr)
  then show ?case
  proof cases
    case first
    from epoch_quiet [OF first Cons.prems(2)] show ?thesis
      by simp
  next
    case later
    from Cons.prems(2) later(5) have "ok env (h @ es1) es2"
      by (simp add: ok_append)
    from Cons.IH [OF later(4) this] epoch_error_None [OF later(2) later(3)] show ?thesis
      by simp
  qed
qed

lemma training_loop_quiet:
  assumes "training_loop env config h = (es, Inl e)" and "ok env h es"
  shows "loop_error env config = Some e"
proof (cases "config ''num_epochs''")
  case None
  with assms(1) show ?thesis
    by (auto simp: training_loop_def loop_error_def and_then_Inl getitem_Inl getitem_Inr)
next
  case (Some v)
  show ?thesis
  proof (cases v)
    case (PyInt n)
    with Some assms(1) have "for_loop (epoch env config) [0..<nat n] 0 h = (es, Inl e)"
      by (auto simp: training_loop_def and_then_Inl getitem_Inl getitem_Inr py_range_Inl
          py_range_Inr)
    from epochs_quiet [OF this assms(2)] Some PyInt show ?thesis
      by (simp add: loop_error_def)
  next
    case (PyStr s)
    with Some assms(1) show ?thesis
      by (auto simp: training_loop_def loop_error_def and_then_Inl getitem_Inl getitem_Inr
          py_range_Inl py_range_Inr)
  next
    case (PyFloat x)
    with Some assms(1) show ?thesis
      by (auto simp: training_loop_def loop_error_def and_then_Inl getitem_Inl getitem_Inr
          py_range_Inl py_range_Inr)
  qed
qed

lemma and_then_quiet:
  assumes "and_then m f h = (es, Inl e)" and "ok env h es"
  shows "(m h = (es, Inl e)) \<or>
     (\<exists>es1 x es2. m h = (es1, Inr x) \<and> f x (h @ es1) = (es2, Inl e) \<and>
        ok env (h @ es1) es2 \<and> es = es1 @ es2)"
  using assms by (auto simp: and_then_Inl ok_append)

lemma build_quiet:
  assumes "build env config h = (es, Inl e)" and "ok env h es"
  shows "build_error env config = Some e"
proof -
  from and_then_quiet [OF assms [unfolded build_def]] consider
      (batch_size) "getitem config ''batch_size'' h = (es, Inl e)"
    | (later) bs es2 where "config ''batch_size'' = Some bs"
        "and_then (num_workers env) (\<lambda>nw.
           and_then (calls env
             [GetDataloader TrainDataset True bs nw (cuda_available env),
              GetDataloader ValDataset False bs nw (cuda_available env),
              GetNumClasses,
              Log (NumberOfClasses (num_classes env)),
              Log (TrainingSamples (train_samples env)),
              Log (ValidationSamples (val_samples env)),
              GetNumClasses,
              EmotionRecognitionModelInit (num_classes env),
              ModelTo (device env),
              GradScalerInit (cuda_available env),
              CrossEntropyLossInit,
              ModelParameters]) (\<lambda>_.
           and_then (getitem config ''learning_rate'') (\<lambda>lr.
           and_then (getitem config ''weight_decay'') (\<lambda>wd.
           calls env
             [AdamInit lr wd,
              ReduceLROnPlateauInit ''max'' (1 / 10) 5,
              Log StartingTraining])))) h = (es2, Inl e)"
        "ok env h es2"
    by (auto simp: getitem_Inr simp del: calls.simps)
  then show ?thesis
  proof cases
    case batch_size
    then show ?thesis
      by (simp add: getitem_Inl build_error_def)
  next
    case later
    from and_then_quiet [OF later(2) later(3)] consider
        (workers) "num_workers env h = (es2, Inl e)"
      | (calls) nw es3 where "os_name env = ''nt'' \<or> os_cpu_count env \<noteq> None"
          "and_then (calls env
             [GetDataloader TrainDataset True bs nw (cuda_available env),
              GetDataloader ValDataset False bs nw (cuda_available env),
              GetNumClasses,
              Log (NumberOfClasses (num_classes env)),
              Log (TrainingSamples (train_samples env)),
              Log (ValidationSamples (val_samples env)),
              GetNumClasses,
              EmotionRecognitionModelInit (num_classes env),
              ModelTo (device env),
              GradScalerInit (cuda_available env),
              CrossEntropyLossInit,
              ModelParameters]) (\<lambda>_.
           and_then (getitem config ''learning_rate'') (\<lambda>lr.
           and_then (getitem config ''weight_decay'') (\<lambda>wd.
           calls env
             [AdamInit lr wd,
              ReduceLROnPlateauInit ''max'' (1 / 10) 5,
              Log StartingTraining]))) h = (es3, Inl e)"
          "ok env h es3"
      by (auto simp: num_workers_Inr simp del: calls.simps)
    then show ?thesis
    proof cases
      case workers
      with later(1) show ?thesis
        by (simp add: num_workers_Inl build_error_def)
    next
      case calls
      from and_then_quiet [OF calls(2) calls(3)] calls_quiet [of env _ h es3 e] calls(3)
      obtain h' es4 where rest: "and_then (getitem config ''learning_rate'') (\<lambda>lr.
           and_then (getitem config ''weight_decay'') (\<lambda>wd.
           calls env
             [AdamInit lr wd,
              ReduceLROnPlateauInit ''max'' (1 / 10) 5,
              Log StartingTraining])) h' = (es4, Inl e)" "ok env h' es4"
        by blast
      from and_then_quiet [OF rest] consider
          (learning_rate) "getitem config ''learning_rate'' h' = (es4, Inl e)"
        | (decay) lr es5 where "config ''learning_rate'' = Some lr"
            "and_then (getitem config ''weight_decay'') (\<lambda>wd.
               calls env
                 [AdamInit lr wd,
                  ReduceLROnPlateauInit ''max'' (1 / 10) 5,
                  Log StartingTraining]) h' = (es5, Inl e)" "ok env h' es5"
        by (auto simp: getitem_Inr simp del: calls.simps)
      then show ?thesis
      proof cases
        case learning_rate
        with later(1) calls(1) show ?thesis
          by (auto simp: getitem_Inl build_error_def)
      next
        case decay
        from and_then_quiet [OF decay(2) decay(3)] consider
            (weight_decay) "getitem config ''weight_decay'' h' = (es5, Inl e)"
          | (last) wd h'' es6 where
              "calls env [AdamInit lr wd, ReduceLROnPlateauInit ''max'' (1 / 10) 5,
                 Log StartingTraining] h'' = (es6, Inl e)" "ok env h'' es6"
          by (auto simp: getitem_Inr simp del: calls.simps)
        then show ?thesis
        proof cases
          case weight_decay
          with later(1) calls(1) decay(1) show ?thesis
            by (auto simp: getitem_Inl build_error_def)
        next
          case last
          with calls_quiet [OF last(1)] show ?thesis
            by simp
        qed
      qed
    qed
  qed
qed

lemma build_error_None: "build_defined env config \<Longrightarrow> build_error env config = None"
  by (auto simp: build_error_def build_defined_def)

lemma after_datasets_quiet:
  assumes "after_datasets env config h = (es, Inl e)" and "ok env h es"
  shows "after_error env config = Some e"
proof -
  from and_then_quiet [OF assms [unfolded after_datasets_def]] consider
      (build) "build env config h = (es, Inl e)"
    | (loop) es1 es2 where "build env config h = (es1, Inr ())"
        "and_then (training_loop env config) (\<lambda>_. returns ()) (h @ es1) = (es2, Inl e)"
        "ok env (h @ es1) es2"
    by auto
  then show ?thesis
  proof cases
    case build
    from build_quiet [OF build assms(2)] show ?thesis
      by (simp add: after_error_def)
  next
    case loop
    from loop(2) have "training_loop env config (h @ es1) = (es2, Inl e)"
      by (auto simp: and_then_Inl returns_Inl)
    from training_loop_quiet [OF this loop(3)] loop(1) show ?thesis
      by (simp add: after_error_def build_Inr build_error_None)
  qed
qed

lemma after_datasets_Inl:
  assumes "after_datasets env config h = (es, Inl e)"
  shows "(ok env h es \<and> after_error env config = Some e) \<or> unhandled env h es e"
proof (cases "ok env h es")
  case True
  with after_datasets_quiet [OF assms] show ?thesis
    by simp
next
  case False
  with propagatingD [OF propagating_after_datasets assms] show ?thesis
    by simp
qed

section \<open>The \<^verbatim>\<open>try\<close> of lines 30-41\<close>

lemma train_after_announce:
  "announce_device env config h = (es_a, Inr ()) \<Longrightarrow>
   train env config h =
     (es_a @ fst (train_from_datasets env config (h @ es_a)),
      snd (train_from_datasets env config (h @ es_a)))"
  by (simp add: train_def and_then_def split: prod.splits)

lemma create_datasets_no_dir:
  "config ''data_dir'' = None \<Longrightarrow>
   create_datasets env config h = ([], Inl (KeyError ''data_dir''))"
  by (simp add: create_datasets_def and_then_def getitem_def raise_def)

lemma create_datasets_not_str:
  "config ''data_dir'' = Some d \<Longrightarrow> \<forall>s. d \<noteq> PyStr s \<Longrightarrow>
   create_datasets env config h = ([], Inl TypeError)"
  by (cases d)
     (simp_all add: create_datasets_def and_then_def getitem_def path_join_def returns_def
        raise_def)

lemma create_datasets_first_fails:
  "config ''data_dir'' = Some (PyStr s) \<Longrightarrow>
   fails env h (EmotionDatasetInit (PyStr s) ''train'' ''train'') = Some e \<Longrightarrow>
   create_datasets env config h = ([EmotionDatasetInit (PyStr s) ''train'' ''train''], Inl e)"
  by (simp add: create_datasets_def and_then_def getitem_def path_join_def returns_def call_def)

lemma create_datasets_second_fails:
  "config ''data_dir'' = Some (PyStr s) \<Longrightarrow>
   fails env h (EmotionDatasetInit (PyStr s) ''train'' ''train'') = None \<Longrightarrow>
   fails env (h @ [EmotionDatasetInit (PyStr s) ''train'' ''train''])
     (EmotionDatasetInit (PyStr s) ''val'' ''val'') = Some e \<Longrightarrow>
   create_datasets env config h =
     ([EmotionDatasetInit (PyStr s) ''train'' ''train'',
       EmotionDatasetInit (PyStr s) ''val'' ''val''], Inl e)"
  by (simp add: create_datasets_def and_then_def getitem_def path_join_def returns_def call_def)

lemma create_datasets_both:
  "config ''data_dir'' = Some (PyStr s) \<Longrightarrow>
   fails env h (EmotionDatasetInit (PyStr s) ''train'' ''train'') = None \<Longrightarrow>
   fails env (h @ [EmotionDatasetInit (PyStr s) ''train'' ''train''])
     (EmotionDatasetInit (PyStr s) ''val'' ''val'') = None \<Longrightarrow>
   create_datasets env config h =
     ([EmotionDatasetInit (PyStr s) ''train'' ''train'',
       EmotionDatasetInit (PyStr s) ''val'' ''val''], Inr ())"
  by (simp add: create_datasets_def and_then_def getitem_def path_join_def returns_def call_def)

lemma train_caught:
  assumes "announce_device env config h = (es_a, Inr ())"
    and "create_datasets env config (h @ es_a) = (es0, Inl e)"
  shows "train env config h =
     (if is_Exception e
      then (es_a @ es0 @ [Log (ErrorCreatingDatasets e)],
            case fails env (h @ es_a @ es0) (Log (ErrorCreatingDatasets e)) of
              Some e' \<Rightarrow> Inl e' | None \<Rightarrow> Inr ())
      else (es_a @ es0, Inl e))"
proof (cases "is_Exception e")
  case True
  from train_from_datasets_caught [OF assms(2) True] True show ?thesis
    by (simp add: train_after_announce [OF assms(1)])
next
  case False
  from train_from_datasets_uncaught [OF assms(2) False] False show ?thesis
    by (simp add: train_after_announce [OF assms(1)])
qed

lemma train_created:
  assumes "announce_device env config h = (es_a, Inr ())"
    and "create_datasets env config (h @ es_a) = (es0, Inr ())"
    and "after_datasets env config (h @ es_a @ es0) = (es1, r)"
  shows "train env config h = (es_a @ es0 @ es1, r)"
  using train_from_datasets_created [OF assms(2)] assms(3)
  by (simp add: train_after_announce [OF assms(1)])

lemma after_datasets_outcome:
  assumes "after_datasets env config h = (es, r)"
  shows "case r of
      Inr u \<Rightarrow> es = after_events env config \<and> ok env h es \<and> after_defined env config
    | Inl e \<Rightarrow> (ok env h es \<and> after_error env config = Some e) \<or> unhandled env h es e"
proof (cases r)
  case (Inl e)
  with after_datasets_Inl [of env config h es e] assms show ?thesis
    by simp
next
  case (Inr u)
  with assms have "after_datasets env config h = (es, Inr u)"
    by simp
  then have "es = after_events env config \<and> ok env h es \<and> after_defined env config"
    unfolding after_datasets_Inr .
  with Inr show ?thesis
    by auto
qed

lemma missing_data_env_simps [simp]:
  "fails missing_data_env h ev = (case ev of
        EmotionDatasetInit d sub m \<Rightarrow> if m = ''val'' then Some (Raised ''no such directory'') else None
      | _ \<Rightarrow> None)"
  "cuda_available missing_data_env = False"
  by (simp_all add: missing_data_env_def example_env_def)

lemma interrupt_env_simps [simp]:
  "fails interrupt_env h ev = (case ev of
        EmotionDatasetInit d sub m \<Rightarrow>
          if m = ''train'' then Some (Interrupt ''KeyboardInterrupt'') else None
      | _ \<Rightarrow> None)"
  "cuda_available interrupt_env = False"
  by (simp_all add: interrupt_env_def example_env_def)

lemma full_disk_env_simps [simp]:
  "fails full_disk_env h ev = (case ev of
        SaveCheckpoint ep l a d \<Rightarrow> Some (Raised ''no space left on device'')
      | _ \<Rightarrow> None)"
  "cuda_available full_disk_env = False"
  "val_loader full_disk_env = val_loader example_env"
  "train_loader full_disk_env = train_loader example_env"
  "os_name full_disk_env = ''posix''"
  "os_cpu_count full_disk_env = Some 8"
  by (simp_all add: full_disk_env_def example_env_def)

lemma no_dir_config_simps [simp]:
  "no_dir_config ''data_dir'' = None"
  "no_dir_config ''log_dir'' = Some (PyStr ''../logs'')"
  by (simp_all add: no_dir_config_def short_config_def main_config_def)

lemma int_dir_config_simps [simp]:
  "int_dir_config ''data_dir'' = Some (PyInt 5)"
  "int_dir_config ''log_dir'' = Some (PyStr ''../logs'')"
  by (simp_all add: int_dir_config_def short_config_def main_config_def)

lemma last_raised_full_disk:
  "last_raised full_disk_env h es = Some e \<Longrightarrow> e = Raised ''no space left on device''"
  by (induction es arbitrary: h) (auto split: option.splits event.splits)

lemma full_disk_after_error: "after_error full_disk_env short_config = None"
  by (simp add: after_error_def build_error_def loop_error_def epoch_error_def
      metrics_defined_def example_loaders)

lemma full_disk_not_ok:
  "\<not> ok full_disk_env h (after_events full_disk_env short_config)"
  by (simp add: after_events_def ok_append loop_events_def epoch_events_def
      checkpoint_events_def accuracy_def n_correct_def n_samples_def example_loaders)

section \<open>Properties of the training script\<close>

subsection \<open>C1: Checkpoints follow improvements\<close>

text \<open>
  C1. In a training loop that completes, a checkpoint is saved exactly in the epochs
  whose validation accuracy is greater than the best recorded before the epoch, as the
  last step of the epoch; the recorded best starts at 0 and becomes the epoch's
  validation accuracy exactly when the checkpoint is saved.
\<close>

theorem checkpoint_iff_improved:
  assumes "training_loop env config h = (es, Inr best)"
  shows "es = concat (map (\<lambda>ep.
             training_events env config ep @ validation_events env ep @
             report_events env config ep @
             (if best_so_far env ep < accuracy (val_loader env ep)
              then [SaveCheckpoint ep (mean_loss (val_loader env ep))
                      (accuracy (val_loader env ep)) (the (config ''checkpoint_dir'')),
                    Log (NewBestModel (accuracy (val_loader env ep)))]
              else [])) [0..<loop_length config]) \<and>
         filter is_checkpoint es =
           map (\<lambda>ep. SaveCheckpoint ep (mean_loss (val_loader env ep))
                      (accuracy (val_loader env ep)) (the (config ''checkpoint_dir'')))
             (filter (\<lambda>ep. best_so_far env ep < accuracy (val_loader env ep))
                [0..<loop_length config]) \<and>
         best = best_so_far env (loop_length config) \<and>
         best_so_far env 0 = 0 \<and>
         (\<forall>ep. best_so_far env (Suc ep) =
            (if best_so_far env ep < accuracy (val_loader env ep)
             then accuracy (val_loader env ep) else best_so_far env ep))"
proof -
  from assms have es: "es = loop_events env config (loop_length config)"
    and best: "best = best_so_far env (loop_length config)"
    by (simp_all add: training_loop_events)
  have order: "es = concat (map (\<lambda>ep.
             training_events env config ep @ validation_events env ep @
             report_events env config ep @
             (if best_so_far env ep < accuracy (val_loader env ep)
              then [SaveCheckpoint ep (mean_loss (val_loader env ep))
                      (accuracy (val_loader env ep)) (the (config ''checkpoint_dir'')),
                    Log (NewBestModel (accuracy (val_loader env ep)))]
              else [])) [0..<loop_length config])"
    unfolding es by (simp add: loop_events_def epoch_events_def checkpoint_events_def)
  have saved: "filter is_checkpoint es =
           map (\<lambda>ep. SaveCheckpoint ep (mean_loss (val_loader env ep))
                      (accuracy (val_loader env ep)) (the (config ''checkpoint_dir'')))
             (filter (\<lambda>ep. best_so_far env ep < accuracy (val_loader env ep))
                [0..<loop_length config])"
    unfolding es by (rule filter_checkpoint_loop)
  have step: "\<forall>ep. best_so_far env (Suc ep) =
            (if best_so_far env ep < accuracy (val_loader env ep)
             then accuracy (val_loader env ep) else best_so_far env ep)"
    by (simp add: max_def)
  have start: "best_so_far env 0 = 0"
    by simp
  from order saved best start step show ?thesis
    by (intro conjI)
qed

theorem checkpoint_iff_improved_witness:
  "training_loop example_env example_config [] =
     (loop_events example_env example_config 3, Inr 100) \<and>
   filter is_checkpoint (loop_events example_env example_config 3) =
     [SaveCheckpoint 0 (1 / 2) 50 (PyStr ''../checkpoints''),
      SaveCheckpoint 2 (1 / 2) 100 (PyStr ''../checkpoints'')]"
proof -
  have best: "best_so_far example_env 3 = 100" "best_so_far example_env 2 = 50"
    "best_so_far example_env 1 = 50"
    by (simp_all add: eval_nat_numeral)
  have run: "training_loop example_env example_config [] =
      (loop_events example_env example_config 3, Inr 100)"
    by (simp add: example_training_loop best)
  from checkpoint_iff_improved [OF run]
  have "filter is_checkpoint (loop_events example_env example_config 3) =
      map (\<lambda>ep. SaveCheckpoint ep (mean_loss (val_loader example_env ep))
                 (accuracy (val_loader example_env ep))
                 (the (example_config ''checkpoint_dir'')))
        (filter (\<lambda>ep. best_so_far example_env ep < accuracy (val_loader example_env ep))
           [0..<loop_length example_config])"
    by blast
  then show ?thesis
    using best by (simp add: run upt_3)
qed

subsection \<open>C2: Exceptions of the dataset construction are caught, later failures are not\<close>




subsection \<open>C3: The order of an epoch\<close>

text \<open>
  C3. A training loop that completes has performed, for every epoch of
  \<^verbatim>\<open>range(config['num_epochs'])\<close> in turn: for each training batch the forward pass, the
  loss, the backward pass and the optimizer step (through the scaler under CUDA); then,
  between entering and leaving \<^verbatim>\<open>torch.no_grad()\<close>, the forward pass and the loss of each
  validation batch; then the scheduler step; then the log lines; then, if the
  validation accuracy improved, the checkpoint.
\<close>

theorem epoch_order:
  assumes "training_loop env config h = (es, Inr best)"
  shows "es = concat (map (\<lambda>ep.
           [ModelTrain, Tqdm (ep + 1) (the (config ''num_epochs''))] @
           concat (replicate (length (train_loader env ep))
             ([TensorTo (device env), TensorTo (device env), ZeroGrad] @
              (if cuda_available env
               then [AutocastEnter ''cuda'' ''float16'', Forward, Criterion, AutocastExit,
                     ScalerScale, Backward, ScalerStep, ScalerUpdate]
               else [Forward, Criterion, Backward, OptimizerStep]) @
              [SetPostfix])) @
           [ModelEval, NoGradEnter] @
           concat (replicate (length (val_loader env ep))
             ([TensorTo (device env), TensorTo (device env)] @
              (if cuda_available env
               then [CudaAmpAutocastEnter, Forward, Criterion, AutocastExit]
               else [Forward, Criterion]))) @
           [NoGradExit,
            SchedulerStep (accuracy (val_loader env ep)),
            Log (CurrentLearningRate (current_lr env ep)),
            Log (EpochHeader (ep + 1) (the (config ''num_epochs''))),
            Log (TrainMetrics (mean_loss (train_loader env ep))
                   (accuracy (train_loader env ep))),
            Log (ValMetrics (mean_loss (val_loader env ep)) (accuracy (val_loader env ep)))] @
           (if best_so_far env ep < accuracy (val_loader env ep)
            then [SaveCheckpoint ep (mean_loss (val_loader env ep))
                    (accuracy (val_loader env ep)) (the (config ''checkpoint_dir'')),
                  Log (NewBestModel (accuracy (val_loader env ep)))]
            else [])) [0..<loop_length config])"
proof -
  from assms have "es = loop_events env config (loop_length config)"
    by (simp add: training_loop_events)
  then show ?thesis
    by (simp add: loop_events_def epoch_events_def training_events_def validation_events_def
        report_events_def checkpoint_events_def train_batch_events_def val_batch_events_def)
qed

theorem epoch_order_witness:
  "training_loop example_env short_config [] = (loop_events example_env short_config 1, Inr 50) \<and>
   loop_events example_env short_config 1 =
     [ModelTrain, Tqdm 1 (PyInt 1),
      TensorTo ''cpu'', TensorTo ''cpu'', ZeroGrad, Forward, Criterion, Backward,
      OptimizerStep, SetPostfix,
      TensorTo ''cpu'', TensorTo ''cpu'', ZeroGrad, Forward, Criterion, Backward,
      OptimizerStep, SetPostfix,
      ModelEval, NoGradEnter,
      TensorTo ''cpu'', TensorTo ''cpu'', Forward, Criterion,
      NoGradExit,
      SchedulerStep 50,
      Log (CurrentLearningRate (1 / 10000)),
      Log (EpochHeader 1 (PyInt 1)),
      Log (TrainMetrics (3 / 2) (200 / 3)),
      Log (ValMetrics (1 / 2) 50),
      SaveCheckpoint 0 (1 / 2) 50 (PyStr ''../checkpoints''),
      Log (NewBestModel 50)]"
proof -
  have run: "training_loop example_env short_config [] =
      (loop_events example_env short_config 1, Inr 50)"
    by (simp add: short_training_loop)
  from epoch_order [OF run] show ?thesis
    by (simp add: run device_def numeral_2_eq_2)
qed

subsection \<open>C4: Mixed precision exactly under CUDA\<close>



subsection \<open>C5: The scheduler steps once per epoch\<close>

text \<open>
  C5. In a run of \<^verbatim>\<open>train\<close> that completes after the datasets were built, the
  scheduler is constructed once, as \<^verbatim>\<open>ReduceLROnPlateau\<close> with mode \<^verbatim>\<open>max\<close>, factor 0.1
  and patience 5, and stepped exactly once in every epoch, with the validation accuracy
  of that epoch, after the validation phase and before the log lines and the
  checkpoint.
\<close>

theorem scheduler_once_per_epoch:
  assumes "after_datasets env config h = (es, Inr ())"
  shows "es = build_events env config @ concat (map (\<lambda>ep.
           (training_events env config ep @ validation_events env ep) @
           [SchedulerStep (accuracy (val_loader env ep))] @
           ([Log (CurrentLearningRate (current_lr env ep)),
             Log (EpochHeader (ep + 1) (the (config ''num_epochs''))),
             Log (TrainMetrics (mean_loss (train_loader env ep))
                    (accuracy (train_loader env ep))),
             Log (ValMetrics (mean_loss (val_loader env ep))
                    (accuracy (val_loader env ep)))] @
            checkpoint_events env config ep (best_so_far env ep)))
           [0..<loop_length config]) \<and>
         filter is_scheduler es =
           ReduceLROnPlateauInit ''max'' (1 / 10) 5 #
           map (\<lambda>ep. SchedulerStep (accuracy (val_loader env ep))) [0..<loop_length config]"
proof -
  from assms have es: "es = build_events env config @ loop_events env config (loop_length config)"
    by (simp add: after_datasets_events)
  have order: "es = build_events env config @ concat (map (\<lambda>ep.
           (training_events env config ep @ validation_events env ep) @
           [SchedulerStep (accuracy (val_loader env ep))] @
           ([Log (CurrentLearningRate (current_lr env ep)),
             Log (EpochHeader (ep + 1) (the (config ''num_epochs''))),
             Log (TrainMetrics (mean_loss (train_loader env ep))
                    (accuracy (train_loader env ep))),
             Log (ValMetrics (mean_loss (val_loader env ep))
                    (accuracy (val_loader env ep)))] @
            checkpoint_events env config ep (best_so_far env ep)))
           [0..<loop_length config])"
    unfolding es by (simp add: loop_events_def epoch_events_def report_events_def)
  have once: "filter is_scheduler es =
           ReduceLROnPlateauInit ''max'' (1 / 10) 5 #
           map (\<lambda>ep. SchedulerStep (accuracy (val_loader env ep))) [0..<loop_length config]"
    unfolding es by (simp add: filter_scheduler_build filter_scheduler_loop)
  from order once show ?thesis
    by (intro conjI)
qed

theorem scheduler_once_per_epoch_witness:
  "after_datasets example_env example_config [] =
     (build_events example_env example_config @ loop_events example_env example_config 3,
      Inr ()) \<and>
   filter is_scheduler
     (build_events example_env example_config @ loop_events example_env example_config 3) =
     [ReduceLROnPlateauInit ''max'' (1 / 10) 5,
      SchedulerStep 50, SchedulerStep 50, SchedulerStep 100]"
proof -
  have run: "after_datasets example_env example_config [] =
      (build_events example_env example_config @ loop_events example_env example_config 3,
       Inr ())"
    by (rule example_after_datasets)
  from scheduler_once_per_epoch [OF run]
  have "filter is_scheduler
      (build_events example_env example_config @ loop_events example_env example_config 3) =
      ReduceLROnPlateauInit ''max'' (1 / 10) 5 #
      map (\<lambda>ep. SchedulerStep (accuracy (val_loader example_env ep)))
        [0..<loop_length example_config]"
    by blast
  then show ?thesis
    by (simp add: run upt_3)
qed

subsection \<open>C6: The logged metrics\<close>

text \<open>
  C6. For every epoch that completes, the two metric lines logged are: the training
  loss, the sum of the per-batch losses divided by the number of training batches, with
  the training accuracy, 100 times the number of samples whose predicted class equals
  the label divided by the number of samples of the phase; and the same two numbers of
  the validation phase.
\<close>

theorem logged_metrics:
  assumes "epoch env config ep best h = (es, Inr best')"
  shows "filter is_metrics es =
    [Log (TrainMetrics
       (sum_list (map loss_item (train_loader env ep)) / real (length (train_loader env ep)))
       (100 * real (n_correct (train_loader env ep)) / real (n_samples (train_loader env ep)))),
     Log (ValMetrics
       (sum_list (map loss_item (val_loader env ep)) / real (length (val_loader env ep)))
       (100 * real (n_correct (val_loader env ep)) / real (n_samples (val_loader env ep))))]"
proof -
  from assms have "es = epoch_events env config ep best"
    by (simp add: epoch_Inr)
  then show ?thesis
    by (simp add: filter_metrics_epoch mean_loss_def accuracy_def)
qed

theorem logged_metrics_witness:
  "epoch example_env example_config 0 0 [] =
     (epoch_events example_env example_config 0 0, Inr 50) \<and>
   filter is_metrics (epoch_events example_env example_config 0 0) =
     [Log (TrainMetrics (3 / 2) (200 / 3)), Log (ValMetrics (1 / 2) 50)]"
proof -
  have run: "epoch example_env example_config 0 0 [] =
      (epoch_events example_env example_config 0 0, Inr 50)"
    by (simp add: example_epoch)
  from logged_metrics [OF run] show ?thesis
    by (simp add: run example_loaders n_correct_def n_samples_def)
qed

subsection \<open>C7: The script: configuration, directories, number of epochs\<close>



subsection \<open>C8: The recorded best is the running maximum\<close>

text \<open>
  C8. In a training loop that completes, after every completed epoch the recorded best
  validation accuracy is the maximum of 0 and the validation accuracies of the epochs
  completed so far; it never decreases; and an epoch whose validation accuracy equals
  the recorded best leaves it unchanged and saves no checkpoint.
\<close>

theorem best_is_running_max:
  assumes "training_loop env config h = (es, Inr best)"
  shows "(\<forall>k \<le> loop_length config.
            for_loop (epoch env config) [0..<k] 0 h =
              (loop_events env config k,
               Inr (Max (insert 0 ((\<lambda>ep. accuracy (val_loader env ep)) ` {0..<k}))))) \<and>
         (\<forall>k. Max (insert 0 ((\<lambda>ep. accuracy (val_loader env ep)) ` {0..<k}))
               \<le> Max (insert 0 ((\<lambda>ep. accuracy (val_loader env ep)) ` {0..<Suc k}))) \<and>
         (\<forall>k < loop_length config.
            accuracy (val_loader env k) =
              Max (insert 0 ((\<lambda>ep. accuracy (val_loader env ep)) ` {0..<k})) \<longrightarrow>
            Max (insert 0 ((\<lambda>ep. accuracy (val_loader env ep)) ` {0..<Suc k})) =
              Max (insert 0 ((\<lambda>ep. accuracy (val_loader env ep)) ` {0..<k})) \<and>
            (\<forall>l a d. SaveCheckpoint k l a d \<notin> set es))"
proof (intro conjI allI impI)
  fix k assume "k \<le> loop_length config"
  with assms show "for_loop (epoch env config) [0..<k] 0 h =
      (loop_events env config k,
       Inr (Max (insert 0 ((\<lambda>ep. accuracy (val_loader env ep)) ` {0..<k}))))"
    by (simp add: training_loop_prefix flip: best_so_far_Max)
next
  fix k
  have "best_so_far env k \<le> best_so_far env (Suc k)" by simp
  then show "Max (insert 0 ((\<lambda>ep. accuracy (val_loader env ep)) ` {0..<k}))
      \<le> Max (insert 0 ((\<lambda>ep. accuracy (val_loader env ep)) ` {0..<Suc k}))"
    by (simp only: best_so_far_Max)
next
  fix k
  assume tie: "accuracy (val_loader env k) =
      Max (insert 0 ((\<lambda>ep. accuracy (val_loader env ep)) ` {0..<k}))"
  then have "best_so_far env (Suc k) = best_so_far env k"
    by (simp add: best_so_far_Max [of env k])
  then show "Max (insert 0 ((\<lambda>ep. accuracy (val_loader env ep)) ` {0..<Suc k})) =
      Max (insert 0 ((\<lambda>ep. accuracy (val_loader env ep)) ` {0..<k}))"
    by (simp only: best_so_far_Max)
next
  fix k l a d
  assume tie: "accuracy (val_loader env k) =
      Max (insert 0 ((\<lambda>ep. accuracy (val_loader env ep)) ` {0..<k}))"
  from assms have "es = loop_events env config (loop_length config)"
    by (simp add: training_loop_events)
  with checkpoint_in_loop [of k l a d env config "loop_length config"] tie
  show "SaveCheckpoint k l a d \<notin> set es"
    by (auto simp: best_so_far_Max [of env k])
qed

theorem best_is_running_max_witness:
  "training_loop example_env example_config [] =
     (loop_events example_env example_config 3, Inr 100) \<and>
   for_loop (epoch example_env example_config) [0..<2] 0 [] =
     (loop_events example_env example_config 2, Inr 50) \<and>
   accuracy (val_loader example_env 1) = 50 \<and>
   SaveCheckpoint 1 (1 / 2) 50 (PyStr ''../checkpoints'')
     \<notin> set (loop_events example_env example_config 3)"
proof -
  have run: "training_loop example_env example_config [] =
      (loop_events example_env example_config 3, Inr 100)"
    by (simp add: example_training_loop)
  note facts = best_is_running_max [OF run]
  have two: "(2::nat) \<le> loop_length example_config" and one: "(1::nat) < loop_length example_config"
    by simp_all
  from facts two have "for_loop (epoch example_env example_config) [0..<2] 0 [] =
      (loop_events example_env example_config 2,
       Inr (Max (insert 0 ((\<lambda>ep. accuracy (val_loader example_env ep)) ` {0..<2}))))"
    by blast
  then have after_two: "for_loop (epoch example_env example_config) [0..<2] 0 [] =
      (loop_events example_env example_config 2, Inr 50)"
    by (simp only: flip: best_so_far_Max) simp
  have tie: "accuracy (val_loader example_env 1) =
      Max (insert 0 ((\<lambda>ep. accuracy (val_loader example_env ep)) ` {0..<1}))"
    by (simp only: flip: best_so_far_Max) simp
  from facts one tie have "\<forall>l a d. SaveCheckpoint 1 l a d
      \<notin> set (loop_events example_env example_config 3)"
    by blast
  with run after_two show ?thesis
    by simp
qed

subsection \<open>C9: When the metrics are defined\<close>

text \<open>
  C9, as stated, fails: a training loader that yields an empty batch first and a batch of
  one sample after it yields at least one batch and at least one sample, and so does the
  validation loader of the example, yet the epoch raises \<^verbatim>\<open>ZeroDivisionError\<close>: line 123
  divides by the cumulative sample count after the first batch, which is 0.
\<close>

theorem metrics_precondition_counterexample:
  "train_loader empty_first_env 0 \<noteq> [] \<and> n_samples (train_loader empty_first_env 0) = 1 \<and>
   val_loader empty_first_env 0 \<noteq> [] \<and> n_samples (val_loader empty_first_env 0) = 2 \<and>
   snd (epoch empty_first_env example_config 0 0 []) = Inl ZeroDivisionError"
  by (simp add: epoch_outcome metrics_defined_def example_loaders)

text \<open>
  C9, amended. An epoch that completes had a training loader that yields at least one
  batch, the first of them with at least one sample, and a validation loader that
  yields at least one sample. Where no call raises and the configuration has its keys,
  that condition is also sufficient, and an epoch without it (over an empty training
  or validation set in particular) raises \<^verbatim>\<open>ZeroDivisionError\<close>.
\<close>

theorem metrics_precondition:
  "(epoch env config ep best h = (es, Inr best') \<longrightarrow>
      train_loader env ep \<noteq> [] \<and> outcomes (hd (train_loader env ep)) \<noteq> [] \<and>
      n_samples (val_loader env ep) \<noteq> 0) \<and>
   (fails env = (\<lambda>h ev. None) \<and> config ''num_epochs'' \<noteq> None \<and>
    config ''checkpoint_dir'' \<noteq> None \<longrightarrow>
      snd (epoch env config ep best h) =
        (if train_loader env ep \<noteq> [] \<and> outcomes (hd (train_loader env ep)) \<noteq> [] \<and>
            n_samples (val_loader env ep) \<noteq> 0
         then Inr (max best (accuracy (val_loader env ep)))
         else Inl ZeroDivisionError))"
proof -
  have necessary: "epoch env config ep best h = (es, Inr best') \<longrightarrow>
      train_loader env ep \<noteq> [] \<and> outcomes (hd (train_loader env ep)) \<noteq> [] \<and>
      n_samples (val_loader env ep) \<noteq> 0"
    by (simp add: epoch_Inr metrics_defined_def)
  have sufficient: "fails env = (\<lambda>h ev. None) \<and> config ''num_epochs'' \<noteq> None \<and>
    config ''checkpoint_dir'' \<noteq> None \<longrightarrow>
      snd (epoch env config ep best h) =
        (if train_loader env ep \<noteq> [] \<and> outcomes (hd (train_loader env ep)) \<noteq> [] \<and>
            n_samples (val_loader env ep) \<noteq> 0
         then Inr (max best (accuracy (val_loader env ep)))
         else Inl ZeroDivisionError)"
    using epoch_outcome [of env config ep best h] by (simp add: metrics_defined_def)
  show ?thesis
    by (rule conjI [OF necessary sufficient])
qed

theorem metrics_precondition_witness:
  "snd (epoch example_env example_config 0 0 []) = Inr 50 \<and>
   snd (epoch empty_train_env example_config 0 0 []) = Inl ZeroDivisionError"
proof -
  have keys: "example_config ''num_epochs'' \<noteq> None" "example_config ''checkpoint_dir'' \<noteq> None"
    by simp_all
  have defined: "train_loader example_env 0 \<noteq> [] \<and>
      outcomes (hd (train_loader example_env 0)) \<noteq> [] \<and>
      n_samples (val_loader example_env 0) \<noteq> 0"
    using example_metrics(7) [of 0] unfolding metrics_defined_def .
  from metrics_precondition [of example_env example_config 0 0 "[]"] keys defined
  have "snd (epoch example_env example_config 0 0 []) = Inr 50"
    by simp
  moreover from metrics_precondition [of empty_train_env example_config 0 0 "[]"] keys
  have "snd (epoch empty_train_env example_config 0 0 []) = Inl ZeroDivisionError"
    by simp
  ultimately show ?thesis
    by (rule conjI)
qed

subsection \<open>C10: The two dataloaders\<close>



end
